theory Spec2Isabelle
  imports Complex_Main
begin

section \<open>Python values\<close>

text \<open>
  The workflow passes Python strings between its steps and inspects what \<^verbatim>\<open>json.loads\<close>
  makes of them, so the model needs the dynamically typed values JSON decodes to.
  A \<^typ>\<open>string\<close> stands for a Python \<^verbatim>\<open>str\<close>, one \<^typ>\<open>char\<close> per character
  (a single-byte repertoire; \<^verbatim>\<open>len\<close> is \<^const>\<open>length\<close>).  A dict with string keys is
  an association list read with \<^const>\<open>map_of\<close>.
\<close>

datatype pyfloat = Finite real | PosInf | NegInf | NaN

datatype pyval =
    PyNone
  | PyBool bool
  | PyInt int
  | PyFloat pyfloat
  | PyStr string
  | PyList "pyval list"
  | PyDict "(string \<times> pyval) list"

type_synonym pydict = "(string \<times> pyval) list"

text \<open>Truth value testing, as \<^verbatim>\<open>bool(x)\<close>, \<^verbatim>\<open>x or y\<close> and \<^verbatim>\<open>if x\<close> do it.\<close>

fun truthy :: "pyval \<Rightarrow> bool" where
  "truthy PyNone = False"
| "truthy (PyBool b) = b"
| "truthy (PyInt i) = (i \<noteq> 0)"
| "truthy (PyFloat f) = (f \<noteq> Finite 0)"
| "truthy (PyStr s) = (s \<noteq> [])"
| "truthy (PyList xs) = (xs \<noteq> [])"
| "truthy (PyDict kvs) = (kvs \<noteq> [])"

definition py_or :: "pyval \<Rightarrow> pyval \<Rightarrow> pyval" where
  "py_or a b = (if truthy a then a else b)"

text \<open>\<^verbatim>\<open>d.get(k)\<close> and \<^verbatim>\<open>d.get(k, default)\<close> on a dict.\<close>

definition dict_get_default :: "pydict \<Rightarrow> string \<Rightarrow> pyval \<Rightarrow> pyval" where
  "dict_get_default d k dflt = (case map_of d k of None \<Rightarrow> dflt | Some v \<Rightarrow> v)"

definition dict_get :: "pydict \<Rightarrow> string \<Rightarrow> pyval" where
  "dict_get d k = dict_get_default d k PyNone"

text \<open>\<^verbatim>\<open>d[k] = v\<close> on a dict: an existing key keeps its place, a new one goes last.\<close>

fun dict_set :: "(string \<times> 'a) list \<Rightarrow> string \<Rightarrow> 'a \<Rightarrow> (string \<times> 'a) list" where
  "dict_set [] k v = [(k, v)]"
| "dict_set ((k', v') # d) k v = (if k' = k then (k, v) # d else (k', v') # dict_set d k v)"

section \<open>Errors\<close>

text \<open>
  Every exception the modelled code can raise is a value.  \<open>Raised\<close> is an exception of
  a collaborator (an agent call, Azure, the workflow engine) with its message.
\<close>

datatype error =
    AttributeError
  | TypeError
  | KeyError
  | JSONDecodeError
  | HTTPException nat string
  | CorrelationError
  | IterationLimitExceeded
  | Raised string

text \<open>
  \<^verbatim>\<open>x.get(k, default)\<close> on a value that \<^verbatim>\<open>json.loads\<close> produced: only a dict has
  \<^verbatim>\<open>get\<close>; on anything else the attribute lookup raises \<^verbatim>\<open>AttributeError\<close>.
\<close>

definition attr_get :: "pyval \<Rightarrow> string \<Rightarrow> pyval \<Rightarrow> error + pyval" where
  "attr_get x k dflt = (case x of PyDict d \<Rightarrow> Inr (dict_get_default d k dflt) | _ \<Rightarrow> Inl AttributeError)"

section \<open>Messages and events\<close>

text \<open>
  The message classes of \<^verbatim>\<open>doc_data_models\<close> are not part of the sources; the records
  hold the fields the code reads and writes, and a constructor call stores its arguments.
  \<^verbatim>\<open>source_uri\<close> and \<^verbatim>\<open>preview\<close> are whatever \<^verbatim>\<open>prepare_request\<close> computed, which
  need not be a string.
\<close>

record DocInput =
  document_uri :: string
  document_title :: "string option"
  page_count :: "int option"

record ApprovalRequest =
  req_approval_id :: string
  req_title :: string
  req_message :: string
  req_source_uri :: pyval
  req_preview :: pyval

record ApprovalResponse =
  resp_approval_id :: string
  resp_approved :: bool
  resp_comment :: "string option"

text \<open>\<^verbatim>\<open>RequestResponse[ApprovalRequest, ApprovalResponse]\<close>: the engine's wrapper around an answer.\<close>

record RequestResponse =
  rr_data :: ApprovalResponse
  rr_original_request :: ApprovalRequest
  rr_request_id :: string

datatype msg =
    DocIn DocInput
  | Val pyval
  | Req ApprovalRequest
  | Resp RequestResponse

text \<open>What a step does with its \<^verbatim>\<open>WorkflowContext\<close>, in the order it does it.\<close>

datatype action =
    Send_message msg "string option"
  | Add_event pydict
  | Yield_output msg

text \<open>
  The events a workflow stream yields, as \<^verbatim>\<open>event_generator\<close> tells them apart with
  \<^verbatim>\<open>isinstance\<close>.  \<open>WorkflowEvent\<close> stands for an event of the base class with its
  \<^verbatim>\<open>data\<close>.  In \<^verbatim>\<open>agent_framework\<close> the class \<^verbatim>\<open>ExecutorCompletedEvent\<close> is a subclass of
  \<^verbatim>\<open>WorkflowEvent\<close> whose \<^verbatim>\<open>data\<close> is \<^verbatim>\<open>None\<close>.
\<close>

datatype event =
    WorkflowOutputEvent msg
  | RequestInfoEvent string ApprovalRequest
  | WorkflowEvent pyval
  | ExecutorCompletedEvent string

section \<open>The Python runtime\<close>

text \<open>
  Library functions the code calls and the model does not define: \<^verbatim>\<open>json.loads\<close>
  (\<open>None\<close> when it raises \<^verbatim>\<open>JSONDecodeError\<close>), \<^verbatim>\<open>json.dumps\<close> with its default
  and with the compact separators, \<^verbatim>\<open>str\<close> on a value
  that is not a string, \<^verbatim>\<open>str\<close> on an exception, and whether slice objects are
  hashable (they are from Python 3.12 on, where \<^verbatim>\<open>d[:240]\<close> on a dict raises
  \<^verbatim>\<open>KeyError\<close>; before, it raises \<^verbatim>\<open>TypeError\<close>).  Theorems hold for every runtime.
\<close>

record python =
  json_loads :: "string \<Rightarrow> pyval option"
  json_dumps :: "pyval \<Rightarrow> string"
  json_dumps_compact :: "pyval \<Rightarrow> string"
  builtin_str :: "msg \<Rightarrow> string"
  exception_str :: "error \<Rightarrow> string"
  slice_hashable :: bool

definition py_str :: "python \<Rightarrow> msg \<Rightarrow> string" where
  "py_str rt m = (case m of Val (PyStr s) \<Rightarrow> s | _ \<Rightarrow> builtin_str rt m)"

section \<open>The HITL coordinator (workflow\_small.py)\<close>

text \<open>\<^verbatim>\<open>APPROVAL_CONTEXT\<close>: the module-level dict from approval id to the cached context.\<close>

type_synonym approval_context = "string \<rightharpoonup> pydict"

text \<open>The character U+2026 that \<^verbatim>\<open>prepare_request\<close> appends to a cut preview.\<close>

definition ellipsis :: string where
  "ellipsis = [CHR 0x85]"

text \<open>
  \<^verbatim>\<open>(summary_text[:240] + ellipsis) if len(summary_text) > 240 else (summary_text or "No preview")\<close>.
  \<^verbatim>\<open>len\<close> raises \<^verbatim>\<open>TypeError\<close> on \<^verbatim>\<open>None\<close>, a bool and a number; a list of more than
  240 items cannot be added to a string; a dict of more than 240 keys cannot be sliced.
\<close>

definition preview_of :: "python \<Rightarrow> pyval \<Rightarrow> error + pyval" where
  "preview_of rt summary_text =
     (case summary_text of
        PyStr s \<Rightarrow>
          Inr (if length s > 240 then PyStr (take 240 s @ ellipsis)
               else py_or (PyStr s) (PyStr ''No preview''))
      | PyList xs \<Rightarrow>
          if length xs > 240 then Inl TypeError
          else Inr (py_or (PyList xs) (PyStr ''No preview''))
      | PyDict kvs \<Rightarrow>
          if length (remdups (map fst kvs)) > 240
          then Inl (if slice_hashable rt then KeyError else TypeError)
          else Inr (py_or (PyDict kvs) (PyStr ''No preview''))
      | _ \<Rightarrow> Inl TypeError)"

text \<open>The body of the \<^verbatim>\<open>try\<close> block of \<^verbatim>\<open>prepare_request\<close>: the pair \<open>(uri, preview)\<close>.\<close>

definition parse_input :: "python \<Rightarrow> string \<Rightarrow> error + (pyval \<times> pyval)" where
  "parse_input rt prev =
     (case json_loads rt prev of
        None \<Rightarrow> Inl JSONDecodeError
      | Some data \<Rightarrow>
     (case attr_get data ''document_details'' (PyDict []) of
        Inl e \<Rightarrow> Inl e
      | Inr details \<Rightarrow>
     (case attr_get details ''source_uri'' PyNone of
        Inl e \<Rightarrow> Inl e
      | Inr source_uri \<Rightarrow>
     (case (if truthy source_uri then Inr source_uri
            else (case attr_get data ''source_doc_uri'' PyNone of
                    Inl e \<Rightarrow> Inl e
                  | Inr doc_uri \<Rightarrow> Inr (py_or doc_uri (PyStr ''n/a'')))) of
        Inl e \<Rightarrow> Inl e
      | Inr uri \<Rightarrow>
     (case attr_get data ''document_summary'' (PyDict []) of
        Inl e \<Rightarrow> Inl e
      | Inr summary \<Rightarrow>
     (case attr_get summary ''text'' PyNone of
        Inl e \<Rightarrow> Inl e
      | Inr text \<Rightarrow>
     (case preview_of rt (py_or text (PyStr [])) of
        Inl e \<Rightarrow> Inl e
      | Inr preview \<Rightarrow> Inr (uri, preview))))))))"

text \<open>
  \<^verbatim>\<open>except (json.JSONDecodeError, TypeError)\<close>: the two exceptions the handler catches
  replace both values; any other exception leaves \<^verbatim>\<open>prepare_request\<close>.
\<close>

definition uri_and_preview :: "python \<Rightarrow> string \<Rightarrow> error + (pyval \<times> pyval)" where
  "uri_and_preview rt prev =
     (case parse_input rt prev of
        Inr r \<Rightarrow> Inr r
      | Inl e \<Rightarrow>
          if e = JSONDecodeError \<or> e = TypeError
          then Inr (PyStr prev,
                    PyStr (''Testing HITL for document: '' @ drop (length prev - 60) prev))
          else Inl e)"

text \<open>
  \<^verbatim>\<open>HitlCoordinator.prepare_request\<close>, with \<open>rid\<close> the value of \<^verbatim>\<open>str(uuid.uuid4())\<close>.
  It caches the payload under \<open>rid\<close> and sends the \<^verbatim>\<open>ApprovalRequest\<close> to
  \<^verbatim>\<open>human_review_exec\<close> only.  An exception is raised before anything is stored or sent.
\<close>

definition prepare_request ::
  "python \<Rightarrow> string \<Rightarrow> string \<Rightarrow> approval_context \<Rightarrow> error + (approval_context \<times> action list)" where
  "prepare_request rt rid prev ctx =
     (case uri_and_preview rt prev of
        Inl e \<Rightarrow> Inl e
      | Inr (uri, preview) \<Rightarrow>
          Inr (ctx(rid \<mapsto> [(''payload'', PyStr prev), (''source_uri'', uri), (''preview'', preview)]),
               [Send_message
                  (Req \<lparr>req_approval_id = rid,
                        req_title = ''Manual approval required'',
                        req_message = ''Please review the extracted result.'',
                        req_source_uri = uri,
                        req_preview = preview\<rparr>)
                  (Some ''human_review_exec'')]))"

text \<open>\<^verbatim>\<open>APPROVAL_CONTEXT.pop(approval_id, {})\<close>: the entry, or the empty dict, and the dict without it.\<close>

definition pop_context :: "approval_context \<Rightarrow> string \<Rightarrow> pydict \<times> approval_context" where
  "pop_context ctx approval_id =
     (case ctx approval_id of
        None \<Rightarrow> ([], ctx)
      | Some info \<Rightarrow> (info, ctx(approval_id := None)))"

text \<open>The message \<^verbatim>\<open>handle_response\<close> sends in its \<^verbatim>\<open>else\<close> branch.\<close>

definition rejection :: "python \<Rightarrow> ApprovalResponse \<Rightarrow> string" where
  "rejection rt response =
     json_dumps rt (PyDict
       [(''overall_status'', PyStr ''rejected_by_human''),
        (''remarks'', py_or (case resp_comment response of None \<Rightarrow> PyNone | Some c \<Rightarrow> PyStr c)
                            (PyStr ''Rejected''))])"

text \<open>
  \<^verbatim>\<open>HitlCoordinator.handle_response\<close>.  It raises nothing: an approval id with no cached
  context pops the empty dict, whose \<^verbatim>\<open>payload\<close> is \<^verbatim>\<open>None\<close>.
\<close>

definition handle_response ::
  "python \<Rightarrow> RequestResponse \<Rightarrow> approval_context \<Rightarrow> approval_context \<times> action list" where
  "handle_response rt feedback ctx =
     (let response = rr_data feedback;
          (info, ctx') = pop_context ctx (resp_approval_id response);
          payload = dict_get info ''payload''
      in (ctx',
          [Add_event [(''type'', PyStr ''hitl''),
                      (''status'', PyStr (if resp_approved response then ''approved'' else ''rejected'')),
                      (''approval_id'', PyStr (resp_approval_id response))],
           if resp_approved response \<and> truthy payload
           then Send_message (Val payload) None
           else Send_message (Val (PyStr (rejection rt response))) None]))"

text \<open>\<^verbatim>\<open>final_result_placeholder\<close>: yields its input as the workflow's output.\<close>

definition final_result_placeholder :: "msg \<Rightarrow> action list" where
  "final_result_placeholder prev = [Yield_output prev]"

section \<open>The other steps of workflow\_small.py\<close>

text \<open>
  The two agent calls are collaborators outside the sources: each takes the step's input
  and returns a string or raises.  \<open>uuid4 n\<close> is the \<open>n\<close>-th identifier that
  \<^verbatim>\<open>uuid.uuid4()\<close> hands out, \<open>new_request_id n\<close> the \<open>n\<close>-th request id the engine's
  \<^verbatim>\<open>RequestInfoExecutor\<close> generates.
\<close>

record services =
  run_extractor_20_agent :: "string \<Rightarrow> error + string"
  run_compliance_20_agent :: "string \<Rightarrow> error + string"
  uuid4 :: "nat \<Rightarrow> string"
  new_request_id :: "nat \<Rightarrow> string"

definition progress :: "string \<Rightarrow> string \<Rightarrow> pydict" where
  "progress phase status =
     [(''type'', PyStr ''progress''), (''phase'', PyStr phase), (''status'', PyStr status)]"

definition newline :: string where
  "newline = [CHR 0x0A]"

definition prompt_text :: "python \<Rightarrow> DocInput \<Rightarrow> string" where
  "prompt_text rt doc =
     newline @ ''        Document Details:'' @ newline
     @ ''        - Document URI: '' @ document_uri doc @ newline
     @ ''        - Document Title: ''
     @ (case document_title doc of None \<Rightarrow> ''N/A'' | Some t \<Rightarrow> if t = [] then ''N/A'' else t)
     @ newline
     @ ''        - Page Count: ''
     @ py_str rt (Val (case page_count doc of None \<Rightarrow> PyNone | Some n \<Rightarrow> PyInt n))
     @ newline @ ''        ''"

definition build_prompt :: "python \<Rightarrow> DocInput \<Rightarrow> action list" where
  "build_prompt rt doc = [Send_message (Val (PyStr (prompt_text rt doc))) None]"

text \<open>
  A step's outcome: the actions it performed, then the exception that ended it, if any.
  \<^verbatim>\<open>extractor_node\<close> calls its agent first; \<^verbatim>\<open>compliance_node\<close> reports progress
  first and calls its agent second.
\<close>

definition extractor_node :: "services \<Rightarrow> string \<Rightarrow> action list \<times> error option" where
  "extractor_node sv m =
     (case run_extractor_20_agent sv m of
        Inl e \<Rightarrow> ([], Some e)
      | Inr result \<Rightarrow>
          ([Add_event (progress ''extraction'' ''running''),
            Send_message (Val (PyStr result)) None], None))"

definition extractor_result :: "string \<Rightarrow> action list" where
  "extractor_result extractor_output =
     [Send_message (Val (PyStr extractor_output)) None,
      Add_event (progress ''extraction'' ''completed'')]"

definition compliance_node :: "services \<Rightarrow> string \<Rightarrow> action list \<times> error option" where
  "compliance_node sv prompt =
     (case run_compliance_20_agent sv prompt of
        Inl e \<Rightarrow> ([Add_event (progress ''compliance'' ''running'')], Some e)
      | Inr result \<Rightarrow>
          ([Add_event (progress ''compliance'' ''running''),
            Send_message (Val (PyStr result)) None], None))"

definition compliance_result :: "string \<Rightarrow> action list" where
  "compliance_result compliance_output =
     [Add_event (progress ''compliance'' ''completed''),
      Send_message (Val (PyStr compliance_output)) None]"

section \<open>The graph that workflow\_small builds\<close>

record graph =
  start_executor :: string
  edges :: "(string \<times> string) list"
  max_iterations :: nat

text \<open>
  The executors' ids, the start executor and the eight \<^verbatim>\<open>add_edge\<close> calls, in the
  source's order.  No edge carries a condition: the only edge out of
  \<^verbatim>\<open>compliance_result_node\<close> leads to the coordinator.
\<close>

definition workflow_small :: graph where
  "workflow_small =
     \<lparr>start_executor = ''doc_prompt'',
      edges =
        [(''doc_prompt'', ''extractor_node''),
         (''extractor_node'', ''extractor_result_node''),
         (''extractor_result_node'', ''compliance_node''),
         (''compliance_node'', ''compliance_result_node''),
         (''compliance_result_node'', ''hitl_coordinator''),
         (''hitl_coordinator'', ''human_review_exec''),
         (''human_review_exec'', ''hitl_coordinator''),
         (''hitl_coordinator'', ''final_result_placeholder'')],
      max_iterations = 80\<rparr>"

definition successors :: "graph \<Rightarrow> string \<Rightarrow> string list" where
  "successors g n = map snd (filter (\<lambda>e. fst e = n) (edges g))"

section \<open>The run engine\<close>

text \<open>
  Modelled from the spec: the run engine (the \<^verbatim>\<open>agent_framework\<close> package behind
  \<^verbatim>\<open>run_stream\<close> and \<^verbatim>\<open>send_responses_streaming\<close>), which is outside the sources.
  Section 4.3 of the spec: every pass hands each ready message to its node, sent
  messages are ready in the next pass, a message without a target goes along every
  outgoing edge, a node takes the messages its handlers are typed for, a yielded output
  ends the run, an exception of a step fails it, and the passes are bounded by the
  graph's iteration limit.  The steps themselves are the source's.
\<close>

record engine_state =
  APPROVAL_CONTEXT :: approval_context
  outstanding :: "(string \<times> ApprovalRequest) list"
  uuids_used :: nat
  requests_made :: nat

text \<open>
  What the engine adds to the steps' own actions: the request that the
  \<^verbatim>\<open>RequestInfoExecutor\<close> surfaces.
\<close>

datatype effect =
    Act action
  | Request_info string ApprovalRequest

text \<open>
  One node on one message: \<open>None\<close> when the node has no handler for the message's type.
  The handlers are chosen by the type of the parameter the source annotates.
\<close>

definition execute ::
  "python \<Rightarrow> services \<Rightarrow> string \<Rightarrow> msg \<Rightarrow> engine_state
     \<Rightarrow> (engine_state \<times> effect list \<times> error option) option" where
  "execute rt sv node m st =
     (if node = ''doc_prompt'' then
        (case m of DocIn doc \<Rightarrow> Some (st, map Act (build_prompt rt doc), None) | _ \<Rightarrow> None)
      else if node = ''extractor_node'' then
        (case m of Val (PyStr s) \<Rightarrow>
           Some (st, map Act (fst (extractor_node sv s)), snd (extractor_node sv s)) | _ \<Rightarrow> None)
      else if node = ''extractor_result_node'' then
        (case m of Val (PyStr s) \<Rightarrow> Some (st, map Act (extractor_result s), None) | _ \<Rightarrow> None)
      else if node = ''compliance_node'' then
        (case m of Val (PyStr s) \<Rightarrow>
           Some (st, map Act (fst (compliance_node sv s)), snd (compliance_node sv s)) | _ \<Rightarrow> None)
      else if node = ''compliance_result_node'' then
        (case m of Val (PyStr s) \<Rightarrow> Some (st, map Act (compliance_result s), None) | _ \<Rightarrow> None)
      else if node = ''hitl_coordinator'' then
        (case m of
           Val (PyStr s) \<Rightarrow>
             (case prepare_request rt (uuid4 sv (uuids_used st)) s (APPROVAL_CONTEXT st) of
                Inl e \<Rightarrow> Some (st\<lparr>uuids_used := Suc (uuids_used st)\<rparr>, [], Some e)
              | Inr (ctx, acts) \<Rightarrow>
                  Some (st\<lparr>APPROVAL_CONTEXT := ctx, uuids_used := Suc (uuids_used st)\<rparr>,
                        map Act acts, None))
         | Resp feedback \<Rightarrow>
             (case handle_response rt feedback (APPROVAL_CONTEXT st) of
                (ctx, acts) \<Rightarrow> Some (st\<lparr>APPROVAL_CONTEXT := ctx\<rparr>, map Act acts, None))
         | _ \<Rightarrow> None)
      else if node = ''human_review_exec'' then
        (case m of
           Req r \<Rightarrow>
             Some (st\<lparr>outstanding := outstanding st @ [(new_request_id sv (requests_made st), r)],
                      requests_made := Suc (requests_made st)\<rparr>,
                   [Request_info (new_request_id sv (requests_made st)) r], None)
         | _ \<Rightarrow> None)
      else if node = ''final_result_placeholder'' then
        Some (st, map Act (final_result_placeholder m), None)
      else None)"

fun event_of :: "effect \<Rightarrow> event list" where
  "event_of (Act (Add_event d)) = [WorkflowEvent (PyDict d)]"
| "event_of (Act (Yield_output m)) = [WorkflowOutputEvent m]"
| "event_of (Act (Send_message m t)) = []"
| "event_of (Request_info rid r) = [RequestInfoEvent rid r]"

fun route :: "graph \<Rightarrow> string \<Rightarrow> effect \<Rightarrow> (string \<times> msg) list" where
  "route g n (Act (Send_message m None)) = map (\<lambda>t. (t, m)) (successors g n)"
| "route g n (Act (Send_message m (Some t))) = map (\<lambda>t. (t, m)) (filter (\<lambda>t'. t' = t) (successors g n))"
| "route g n _ = []"

fun is_yield :: "effect \<Rightarrow> bool" where
  "is_yield (Act (Yield_output m)) = True"
| "is_yield _ = False"

datatype outcome = Continue | Completed | Failed error

text \<open>One pass over the ready messages: the state, the events, the messages sent, the outcome.\<close>

fun deliver ::
  "python \<Rightarrow> services \<Rightarrow> graph \<Rightarrow> (string \<times> msg) list \<Rightarrow> engine_state
     \<Rightarrow> engine_state \<times> event list \<times> (string \<times> msg) list \<times> outcome" where
  "deliver rt sv g [] st = (st, [], [], Continue)"
| "deliver rt sv g ((node, m) # ready) st =
     (case execute rt sv node m st of
        None \<Rightarrow> deliver rt sv g ready st
      | Some (st1, effs, Some e) \<Rightarrow> (st1, concat (map event_of effs), [], Failed e)
      | Some (st1, effs, None) \<Rightarrow>
          if list_ex is_yield effs then (st1, concat (map event_of effs), [], Completed)
          else (case deliver rt sv g ready st1 of
                  (st2, evs, sent, out) \<Rightarrow>
                    (st2,
                     concat (map event_of effs) @ [ExecutorCompletedEvent node] @ evs,
                     concat (map (route g node) effs) @ sent,
                     out)))"

text \<open>
  A stream of events: what it yields, then the exception that ends it, if any.
\<close>

type_synonym stream = "event list \<times> error option"

fun supersteps ::
  "nat \<Rightarrow> python \<Rightarrow> services \<Rightarrow> graph \<Rightarrow> (string \<times> msg) list \<Rightarrow> engine_state
     \<Rightarrow> stream \<times> engine_state" where
  "supersteps n rt sv g [] st = (([], None), st)"
| "supersteps 0 rt sv g (d # ready) st = (([], Some IterationLimitExceeded), st)"
| "supersteps (Suc n) rt sv g (d # ready) st =
     (case deliver rt sv g (d # ready) st of
        (st1, evs, sent, Continue) \<Rightarrow>
          (case supersteps n rt sv g sent st1 of
             ((evs', err), st2) \<Rightarrow> ((evs @ evs', err), st2))
      | (st1, evs, sent, Completed) \<Rightarrow> ((evs, None), st1)
      | (st1, evs, sent, Failed e) \<Rightarrow> ((evs, Some e), st1))"

definition run_stream ::
  "python \<Rightarrow> services \<Rightarrow> graph \<Rightarrow> DocInput \<Rightarrow> engine_state \<Rightarrow> stream \<times> engine_state" where
  "run_stream rt sv g doc st = supersteps (max_iterations g) rt sv g [(start_executor g, DocIn doc)] st"

text \<open>
  Resuming: every answer must name an outstanding request, else the engine raises
  \<open>CorrelationError\<close> and the run state stays as it is; a matched answer goes, wrapped
  with its request, along the edges out of \<^verbatim>\<open>human_review_exec\<close>.
\<close>

fun take_request ::
  "string \<Rightarrow> (string \<times> ApprovalRequest) list \<Rightarrow> (ApprovalRequest \<times> (string \<times> ApprovalRequest) list) option" where
  "take_request rid [] = None"
| "take_request rid ((k, r) # rest) =
     (if k = rid then Some (r, rest)
      else (case take_request rid rest of
              None \<Rightarrow> None
            | Some (r', rest') \<Rightarrow> Some (r', (k, r) # rest')))"

fun match_responses ::
  "(string \<times> ApprovalResponse) list \<Rightarrow> (string \<times> ApprovalRequest) list
     \<Rightarrow> (RequestResponse list \<times> (string \<times> ApprovalRequest) list) option" where
  "match_responses [] out = Some ([], out)"
| "match_responses ((rid, resp) # rest) out =
     (case take_request rid out of
        None \<Rightarrow> None
      | Some (r, out1) \<Rightarrow>
          (case match_responses rest out1 of
             None \<Rightarrow> None
           | Some (fbs, out2) \<Rightarrow>
               Some (\<lparr>rr_data = resp, rr_original_request = r, rr_request_id = rid\<rparr> # fbs, out2)))"

definition send_responses_streaming ::
  "python \<Rightarrow> services \<Rightarrow> graph \<Rightarrow> (string \<times> ApprovalResponse) list \<Rightarrow> engine_state
     \<Rightarrow> stream \<times> engine_state" where
  "send_responses_streaming rt sv g responses st =
     (case match_responses responses (outstanding st) of
        None \<Rightarrow> (([], Some CorrelationError), st)
      | Some (fbs, out) \<Rightarrow>
          supersteps (max_iterations g) rt sv g
            (concat (map (\<lambda>fb. map (\<lambda>t. (t, Resp fb)) (successors g ''human_review_exec'')) fbs))
            (st\<lparr>outstanding := out\<rparr>))"

section \<open>The event bridge (workflow\_api.py)\<close>

text \<open>
  The two module-level dicts.  A session holds what \<^verbatim>\<open>start_workflow\<close> stored (the
  creation time is left out) and, once an answer was submitted, the key
  \<^verbatim>\<open>pending_responses\<close>.  \<^verbatim>\<open>pending_approvals\<close> maps a request id to its session
  and the data shown to the reviewer.
\<close>

record session =
  status :: string
  session_document_uri :: string
  pending_responses :: "(string \<times> ApprovalResponse) list option"

record approval_info =
  info_session_id :: string
  approval_data :: pydict

record api_state =
  workflow_sessions :: "string \<rightharpoonup> session"
  pending_approvals :: "string \<rightharpoonup> approval_info"

record ApprovalDecision =
  request_id :: string
  approval_id :: string
  approved :: bool
  comment :: "string option"

text \<open>
  \<^verbatim>\<open>submit_approval\<close>: the answer or the \<^verbatim>\<open>HTTPException\<close>, and the two dicts afterwards.
  The answer is stored under the session's key \<^verbatim>\<open>pending_responses\<close> and the request
  id is deleted from \<^verbatim>\<open>pending_approvals\<close>.
\<close>

definition submit_approval :: "api_state \<Rightarrow> ApprovalDecision \<Rightarrow> (error + pydict) \<times> api_state" where
  "submit_approval g decision =
     (case pending_approvals g (request_id decision) of
        None \<Rightarrow> (Inl (HTTPException 404 ''Approval request not found''), g)
      | Some info \<Rightarrow>
     (case workflow_sessions g (info_session_id info) of
        None \<Rightarrow> (Inl (HTTPException 404 ''Workflow session not found''), g)
      | Some s \<Rightarrow>
          let resp = \<lparr>resp_approval_id = approval_id decision,
                      resp_approved = approved decision,
                      resp_comment = comment decision\<rparr>;
              stored = (case pending_responses s of None \<Rightarrow> [] | Some d \<Rightarrow> d);
              s' = s\<lparr>pending_responses := Some (dict_set stored (request_id decision) resp)\<rparr>
          in (Inr [(''status'', PyStr ''success''),
                   (''message'', PyStr (''Approval '' @ (if approved decision then ''granted'' else ''rejected''))),
                   (''approval_id'', PyStr (approval_id decision))],
              g\<lparr>workflow_sessions := (workflow_sessions g)(info_session_id info \<mapsto> s'),
                pending_approvals := (pending_approvals g)(request_id decision := None)\<rparr>)))"

text \<open>
  A record of the event stream: the event's name and its data.  The wire format of
  \<^verbatim>\<open>format_sse\<close> (the two lines around \<^verbatim>\<open>json.dumps(data)\<close>) and the \<^verbatim>\<open>timestamp\<close>
  entry, which reads the clock, are left out.
\<close>

datatype sse = Sse (sse_event: string) (sse_data: pydict)

definition format_sse :: "string \<Rightarrow> pydict \<Rightarrow> sse" where
  "format_sse event_type data = Sse event_type data"

text \<open>
  The workflow object the generator drives: its two entry points, each reading and
  changing the workflow's own state \<open>'w\<close>.
\<close>

record 'w workflow =
  wf_run_stream :: "DocInput \<Rightarrow> 'w \<Rightarrow> stream \<times> 'w"
  wf_send_responses_streaming :: "(string \<times> ApprovalResponse) list \<Rightarrow> 'w \<Rightarrow> stream \<times> 'w"

datatype invocation =
    Run_stream DocInput
  | Send_responses_streaming "(string \<times> ApprovalResponse) list"

text \<open>
  What the generator runs against: the two dicts, the clients' calls of
  \<^verbatim>\<open>submit_approval\<close> still to come (one batch, possibly empty, for every point where the
  generator awaits), the workflow's state, and the log of its calls into the workflow.
\<close>

record 'w bridge =
  api :: api_state
  schedule :: "ApprovalDecision list list"
  engine :: 'w
  invocations :: "invocation list"

definition submit_all :: "api_state \<Rightarrow> ApprovalDecision list \<Rightarrow> api_state" where
  "submit_all g ds = foldl (\<lambda>g d. snd (submit_approval g d)) g ds"

definition clients :: "'w bridge \<Rightarrow> 'w bridge" where
  "clients b =
     (case schedule b of
        [] \<Rightarrow> b
      | batch # later \<Rightarrow> b\<lparr>api := submit_all (api b) batch, schedule := later\<rparr>)"

text \<open>\<^verbatim>\<open>approval_data\<close>, without its \<^verbatim>\<open>timestamp\<close>.\<close>

definition approval_fields :: "string \<Rightarrow> ApprovalRequest \<Rightarrow> pydict" where
  "approval_fields rid req =
     [(''request_id'', PyStr rid),
      (''approval_id'', PyStr (req_approval_id req)),
      (''title'', PyStr (req_title req)),
      (''message'', PyStr (req_message req)),
      (''source_uri'', req_source_uri req),
      (''preview'', req_preview req)]"

definition custom_event :: "pyval \<Rightarrow> sse list" where
  "custom_event event_data =
     (case event_data of
        PyDict d \<Rightarrow>
          if dict_get d ''type'' = PyStr ''progress''
          then [format_sse ''progress'' [(''phase'', dict_get d ''phase''), (''status'', dict_get d ''status'')]]
          else if dict_get d ''type'' = PyStr ''hitl''
          then [format_sse ''hitl_status''
                  [(''status'', dict_get d ''status''), (''approval_id'', dict_get d ''approval_id'')]]
          else []
      | _ \<Rightarrow> [])"

text \<open>
  The body of \<^verbatim>\<open>async for event in stream\<close>.  The result is the records yielded, the
  \<^verbatim>\<open>request_info_events\<close> collected, and whether the generator returned (on an output event).
  The test \<^verbatim>\<open>isinstance(event, WorkflowEvent)\<close> stands before the one for
  \<^verbatim>\<open>ExecutorCompletedEvent\<close>, a subclass: such an event takes the branch of the custom
  events with \<^verbatim>\<open>None\<close> for its data, which is no dict, and yields no record.  The branch
  that formats \<^verbatim>\<open>executor_completed\<close> is never reached.
\<close>

fun consume ::
  "python \<Rightarrow> string \<Rightarrow> event list \<Rightarrow> (string \<times> ApprovalRequest) list \<Rightarrow> 'w bridge
     \<Rightarrow> sse list \<times> (string \<times> ApprovalRequest) list \<times> bool \<times> 'w bridge" where
  "consume rt sid [] reqs b = ([], reqs, False, b)"
| "consume rt sid (WorkflowOutputEvent data # evs) reqs b =
     ([format_sse ''workflow_completed''
         [(''session_id'', PyStr sid), (''result'', PyStr (py_str rt data))]],
      reqs, True, clients b)"
| "consume rt sid (RequestInfoEvent rid req # evs) reqs b =
     (let b1 = clients b;
          b2 = b1\<lparr>api := (api b1)\<lparr>pending_approvals :=
                   (pending_approvals (api b1))
                     (rid \<mapsto> \<lparr>info_session_id = sid, approval_data = approval_fields rid req\<rparr>)\<rparr>\<rparr>
      in (case consume rt sid evs (reqs @ [(rid, req)]) b2 of
            (out, reqs', returned, b3) \<Rightarrow>
              (format_sse ''approval_required'' (approval_fields rid req) # out, reqs', returned, b3)))"
| "consume rt sid (WorkflowEvent event_data # evs) reqs b =
     (case consume rt sid evs reqs (clients b) of
        (out, reqs', returned, b1) \<Rightarrow> (custom_event event_data @ out, reqs', returned, b1))"
| "consume rt sid (ExecutorCompletedEvent executor_id # evs) reqs b =
     (case consume rt sid evs reqs (clients b) of
        (out, reqs', returned, b1) \<Rightarrow> (custom_event PyNone @ out, reqs', returned, b1))"

text \<open>
  The polling loop, with \<open>n\<close> the seconds left (\<^verbatim>\<open>max_wait - waited\<close>).  The result is
  \<^verbatim>\<open>all_responses_ready\<close> as the loop leaves it.  The check reads the generator's local
  dict \<^verbatim>\<open>pending_responses\<close>; the clients run while the generator sleeps.
\<close>

definition max_wait :: nat where
  "max_wait = 300"

definition all_responses_ready ::
  "(string \<times> ApprovalResponse) list \<Rightarrow> (string \<times> ApprovalRequest) list \<Rightarrow> bool" where
  "all_responses_ready local_responses request_info_events =
     list_all (\<lambda>req_event. map_of local_responses (fst req_event) \<noteq> None) request_info_events"

fun wait_for_approval ::
  "nat \<Rightarrow> (string \<times> ApprovalResponse) list \<Rightarrow> (string \<times> ApprovalRequest) list \<Rightarrow> 'w bridge
     \<Rightarrow> bool \<times> 'w bridge" where
  "wait_for_approval 0 local_responses reqs b = (False, b)"
| "wait_for_approval (Suc n) local_responses reqs b =
     (if all_responses_ready local_responses reqs then (True, b)
      else wait_for_approval n local_responses reqs (clients b))"

lemma not_ready_empty: "reqs \<noteq> [] \<Longrightarrow> \<not> all_responses_ready [] reqs"
  by (cases reqs) (simp_all add: all_responses_ready_def)

lemma wait_empty: "reqs \<noteq> [] \<Longrightarrow> fst (wait_for_approval n [] reqs b) = False"
  by (induction n arbitrary: b) (simp_all add: not_ready_empty)

text \<open>
  The head of the \<^verbatim>\<open>while True\<close> loop: with answers in the local dict the workflow is
  resumed with them and the dict is reset, otherwise the workflow is started.  The
  result carries the local dict as the branch leaves it.
\<close>

definition invoke ::
  "'w workflow \<Rightarrow> DocInput \<Rightarrow> (string \<times> ApprovalResponse) list \<Rightarrow> 'w bridge
     \<Rightarrow> stream \<times> (string \<times> ApprovalResponse) list \<times> 'w bridge" where
  "invoke flow doc_input local_responses b =
     (if local_responses \<noteq> []
      then (case wf_send_responses_streaming flow local_responses (engine b) of
              (strm, w) \<Rightarrow>
                (strm, [],
                 b\<lparr>engine := w,
                   invocations := invocations b @ [Send_responses_streaming local_responses]\<rparr>))
      else (case wf_run_stream flow doc_input (engine b) of
              (strm, w) \<Rightarrow>
                (strm, local_responses,
                 b\<lparr>engine := w, invocations := invocations b @ [Run_stream doc_input]\<rparr>)))"

lemma invoke_local: "invoke flow doc_input local_responses b = (strm, local', b') \<Longrightarrow> local' = []"
  by (auto simp: invoke_def split: if_splits prod.splits)

definition waiting_record :: "(string \<times> ApprovalRequest) list \<Rightarrow> sse" where
  "waiting_record reqs = format_sse ''waiting_for_approval'' [(''count'', PyInt (int (length reqs)))]"

definition timeout_record :: sse where
  "timeout_record = format_sse ''error'' [(''message'', PyStr ''Approval timeout - no response received'')]"

definition error_record :: "python \<Rightarrow> error \<Rightarrow> sse" where
  "error_record rt e = format_sse ''error'' [(''message'', PyStr (exception_str rt e))]"

text \<open>
  The \<^verbatim>\<open>while True\<close> loop of \<^verbatim>\<open>event_generator\<close>, with the local dict
  \<^verbatim>\<open>pending_responses\<close> as an argument.  An exception of the stream reaches the
  \<^verbatim>\<open>except\<close> clause after the records of the events before it.
\<close>

function workflow_loop ::
  "python \<Rightarrow> 'w workflow \<Rightarrow> string \<Rightarrow> DocInput \<Rightarrow> (string \<times> ApprovalResponse) list \<Rightarrow> 'w bridge
     \<Rightarrow> sse list \<times> 'w bridge" where
  "workflow_loop rt flow sid doc_input local_responses b =
     (case invoke flow doc_input local_responses b of
        (strm, local1, b1) \<Rightarrow>
     (case consume rt sid (fst strm) [] b1 of
        (out, reqs, returned, b2) \<Rightarrow>
          if returned then (out, b2)
          else (case snd strm of
                  Some e \<Rightarrow> (out @ [error_record rt e], b2)
                | None \<Rightarrow>
                    if reqs \<noteq> [] then
                      (case wait_for_approval max_wait local1 reqs (clients b2) of
                         (ready, b3) \<Rightarrow>
                           if \<not> ready
                           then (out @ [waiting_record reqs, timeout_record], b3)
                           else (case workflow_loop rt flow sid doc_input local1 b3 of
                                   (out', b4) \<Rightarrow> (out @ [waiting_record reqs] @ out', b4)))
                    else (out, b2))))"
  by pat_completeness auto
termination
proof (relation "{}")
  show "wf {}" by simp
next
  fix flow :: "'w workflow" and doc_input local_responses and b ya yd ye :: "'w bridge"
    and x y xa xc xe
  assume inv: "(x, y) = invoke flow doc_input local_responses b" and y: "(xa, ya) = y"
    and reqs: "xc \<noteq> []"
    and w: "(xe, ye) = wait_for_approval max_wait xa xc (clients yd)" and ready: "\<not> \<not> xe"
  from inv y have "invoke flow doc_input local_responses b = (x, xa, ya)" by simp
  then have "xa = []" by (rule invoke_local)
  with reqs have "fst (wait_for_approval max_wait xa xc (clients yd)) = False" by (simp add: wait_empty)
  with w ready have False by (metis fst_conv)
  then show "\<And>rt sid. ((rt, flow, sid, doc_input, xa, ye), rt, flow, sid, doc_input, local_responses, b) \<in> {}"
    by simp
qed

text \<open>
  \<^verbatim>\<open>event_generator\<close> for the session \<open>s\<close> with id \<open>sid\<close>.  \<open>built\<close> is what
  \<^verbatim>\<open>await workflow_small(...)\<close> returns or raises.  The session never holds a title or
  a page count, so the \<^verbatim>\<open>DocInput\<close> gets \<^verbatim>\<open>None\<close> for both.
\<close>

definition event_generator ::
  "python \<Rightarrow> error + 'w workflow \<Rightarrow> string \<Rightarrow> session \<Rightarrow> 'w bridge \<Rightarrow> sse list \<times> 'w bridge" where
  "event_generator rt built sid s b =
     (case built of
        Inl e \<Rightarrow> ([format_sse ''connected'' [(''session_id'', PyStr sid)], error_record rt e], b)
      | Inr flow \<Rightarrow>
          (case workflow_loop rt flow sid
                  \<lparr>document_uri = session_document_uri s, document_title = None, page_count = None\<rparr>
                  [] b of
             (out, b') \<Rightarrow>
               (format_sse ''connected'' [(''session_id'', PyStr sid)]
                # format_sse ''workflow_started''
                    [(''session_id'', PyStr sid), (''document_uri'', PyStr (session_document_uri s))]
                # out,
                b')))"

definition stream_workflow_events ::
  "python \<Rightarrow> error + 'w workflow \<Rightarrow> string \<Rightarrow> 'w bridge \<Rightarrow> error + (sse list \<times> 'w bridge)" where
  "stream_workflow_events rt built sid b =
     (case workflow_sessions (api b) sid of
        None \<Rightarrow> Inl (HTTPException 404 ''Workflow session not found'')
      | Some s \<Rightarrow> Inr (event_generator rt built sid s b))"

text \<open>The workflow object that \<^verbatim>\<open>workflow_small\<close> returns, over the engine above.\<close>

definition document_workflow :: "python \<Rightarrow> services \<Rightarrow> engine_state workflow" where
  "document_workflow rt sv =
     \<lparr>wf_run_stream = run_stream rt sv workflow_small,
      wf_send_responses_streaming = send_responses_streaming rt sv workflow_small\<rparr>"

text \<open>A terminal record of the event stream.\<close>

definition terminal :: "sse \<Rightarrow> bool" where
  "terminal r = (sse_event r = ''workflow_completed'' \<or> sse_event r = ''error'')"

section \<open>The blob result sink (workflow\_small.py)\<close>

text \<open>
  What the name \<^verbatim>\<open>datetime\<close> is bound to in a module: the module \<^verbatim>\<open>datetime\<close> after
  \<^verbatim>\<open>import datetime\<close>, the class \<^verbatim>\<open>datetime.datetime\<close> after
  \<^verbatim>\<open>from datetime import datetime\<close>.  The module has the attribute \<^verbatim>\<open>datetime\<close> and
  no \<^verbatim>\<open>utcnow\<close>; the class has \<^verbatim>\<open>utcnow\<close> and no attribute \<^verbatim>\<open>datetime\<close>.
\<close>

datatype datetime_name = Module_datetime | Class_datetime

definition imported_datetime :: datetime_name where
  "imported_datetime = Class_datetime"

definition attribute_datetime :: "datetime_name \<Rightarrow> error + datetime_name" where
  "attribute_datetime n = (case n of Module_datetime \<Rightarrow> Inr Class_datetime | Class_datetime \<Rightarrow> Inl AttributeError)"

definition utcnow_strftime :: "datetime_name \<Rightarrow> string \<Rightarrow> error + string" where
  "utcnow_strftime n today = (case n of Class_datetime \<Rightarrow> Inr today | Module_datetime \<Rightarrow> Inl AttributeError)"

text \<open>
  The collaborators of \<^verbatim>\<open>save_result_to_blob\<close>: the process environment, the Azure
  calls (each may raise), the two helpers of \<^verbatim>\<open>tools.utils\<close>, which are outside the
  sources, and the day the clock would give.
\<close>

record azure =
  environ :: "string \<rightharpoonup> string"
  default_credential_raises :: bool
  cli_credential_raises :: "error option"
  blob_service_client_raises :: "error option"
  get_container_client_raises :: "error option"
  name_from_uri :: "string \<Rightarrow> error + string"
  stable_id :: "string \<Rightarrow> error + string"
  upload_blob_raises :: "error option"
  today :: string

datatype blob_effect =
    Create_container
  | Upload_blob string string
  | Yielded pydict

definition rstrip_slash :: "string \<Rightarrow> string" where
  "rstrip_slash s = rev (dropWhile (\<lambda>c. c = CHR ''/'') (rev s))"

text \<open>
  The statements before the date path (lines 193 to 213): the environment lookups, the
  credential, the clients, the attempt to create the container, and the two names.
  The result is \<open>(account_url, container, src, fname, rid)\<close>.
\<close>

definition before_date_path ::
  "python \<Rightarrow> azure \<Rightarrow> pydict
     \<Rightarrow> blob_effect list \<times> (error + string \<times> string \<times> string \<times> string \<times> string)" where
  "before_date_path rt az prev =
     (case environ az ''AZURE_STORAGE_ACCOUNT_URL'' of
        None \<Rightarrow> ([], Inl KeyError)
      | Some account_url \<Rightarrow>
     (case environ az ''AZURE_STORAGE_CONTAINER'' of
        None \<Rightarrow> ([], Inl KeyError)
      | Some container \<Rightarrow>
     (case (if default_credential_raises az then cli_credential_raises az else None) of
        Some e \<Rightarrow> ([], Inl e)
      | None \<Rightarrow>
     (case blob_service_client_raises az of
        Some e \<Rightarrow> ([], Inl e)
      | None \<Rightarrow>
     (case get_container_client_raises az of
        Some e \<Rightarrow> ([], Inl e)
      | None \<Rightarrow>
          let src = py_str rt (Val (dict_get_default prev ''source_uri'' (PyStr ''n/a'')))
          in (case name_from_uri az src of
                Inl e \<Rightarrow> ([Create_container], Inl e)
              | Inr fname \<Rightarrow>
             (case stable_id az (src @ ''|'' @ py_str rt (Val (dict_get_default prev ''approval_id'' (PyStr [])))) of
                Inl e \<Rightarrow> ([Create_container], Inl e)
              | Inr rid \<Rightarrow> ([Create_container], Inr (account_url, container, src, fname, rid)))))))))"

text \<open>
  \<^verbatim>\<open>save_result_to_blob\<close>: the effects it performs, and the exception that ends it
  (\<open>None\<close> when it returns).  Line 214 evaluates \<^verbatim>\<open>datetime.datetime.utcnow()\<close> on the
  name the module imported.
\<close>

definition save_result_to_blob :: "python \<Rightarrow> azure \<Rightarrow> pydict \<Rightarrow> blob_effect list \<times> error option" where
  "save_result_to_blob rt az prev =
     (case before_date_path rt az prev of
        (effs, Inl e) \<Rightarrow> (effs, Some e)
      | (effs, Inr (account_url, container, src, fname, rid)) \<Rightarrow>
     (case (case attribute_datetime imported_datetime of
              Inl e \<Rightarrow> Inl e
            | Inr c \<Rightarrow> utcnow_strftime c (today az)) of
        Inl e \<Rightarrow> (effs, Some e)
      | Inr day \<Rightarrow>
          let blob_name = ''runs/'' @ day @ ''/'' @ fname @ ''-'' @ rid @ ''.json'';
              payload =
                [(''source_uri'', PyStr src),
                 (''status'', dict_get prev ''status''),
                 (''comment'', dict_get prev ''comment''),
                 (''approval_id'', dict_get prev ''approval_id''),
                 (''preview'', dict_get prev ''preview''),
                 (''timestamp_utc'', dict_get prev ''timestamp_utc''),
                 (''workflow'', PyDict [(''name'', PyStr ''doc_20_page_workflow''),
                                       (''node'', PyStr ''save_results''),
                                       (''version'', PyStr ''v1'')])];
              data = json_dumps_compact rt (PyDict payload)
          in (case upload_blob_raises az of
                Some e \<Rightarrow> (effs, Some e)
              | None \<Rightarrow>
                  (effs @ [Upload_blob blob_name data,
                           Yielded (payload @
                             [(''blob_url'', PyStr (rstrip_slash account_url @ ''/'' @ container @ ''/'' @ blob_name)),
                              (''blob_name'', PyStr blob_name),
                              (''container'', PyStr container)])],
                   None))))"

section \<open>The compliance adapter (workflow\_one.py)\<close>

text \<open>The dict \<^verbatim>\<open>_parse_compliance_json\<close> returns from its \<^verbatim>\<open>except\<close> clause.\<close>

definition forced_review :: "string \<Rightarrow> pydict" where
  "forced_review text =
     [(''compliance'', PyDict [(''is_compliant'', PyBool False), (''notes'', PyList [PyStr text])]),
      (''needs_human_review'', PyBool True)]"

text \<open>
  \<^verbatim>\<open>_parse_compliance_json\<close>.  It parses \<^verbatim>\<open>text or "{}"\<close>.  On a decoded value that is
  not a dict, the membership test, the item assignment or \<^verbatim>\<open>setdefault\<close> raises, and
  \<^verbatim>\<open>except Exception\<close> catches that as it catches the decoder's error.
\<close>

definition parse_compliance_json :: "python \<Rightarrow> string \<Rightarrow> pydict" where
  "parse_compliance_json rt text =
     (case json_loads rt (if text = [] then ''{}'' else text) of
        Some (PyDict obj) \<Rightarrow>
          let obj1 = (if map_of obj ''compliance'' = None then dict_set obj ''compliance'' (PyDict []) else obj)
          in (if map_of obj1 ''needs_human_review'' = None
              then dict_set obj1 ''needs_human_review'' (PyBool False) else obj1)
      | _ \<Rightarrow> forced_review text)"

record HumanReviewPacket =
  packet_document_uri :: string
  summary :: string
  compliance_notes :: string
  prompt :: string

text \<open>The two calls of \<^verbatim>\<open>ctx.send_message\<close> in \<^verbatim>\<open>on_compliance\<close>, by their first argument.\<close>

datatype adapter_send =
    Save_results pydict
  | Human_review_exec HumanReviewPacket

fun join :: "string \<Rightarrow> string list \<Rightarrow> string" where
  "join sep [] = []"
| "join sep [x] = x"
| "join sep (x # y # ys) = x @ sep @ join sep (y # ys)"

text \<open>
  \<^verbatim>\<open>ComplianceAdapter.on_compliance\<close> on the agent's text (\<open>None\<close> when the agent gave
  none) and \<^verbatim>\<open>ctx.state\<close>: the state afterwards, and what is sent or the exception.
  A \<^verbatim>\<open>compliance\<close> entry that is not a dict has no \<^verbatim>\<open>get\<close>.
\<close>

definition on_compliance ::
  "python \<Rightarrow> string option \<Rightarrow> pydict \<Rightarrow> pydict \<times> (error + adapter_send)" where
  "on_compliance rt text state =
     (let comp_text = (case text of None \<Rightarrow> [] | Some t \<Rightarrow> t);
          state1 = dict_set state ''compliance_text'' (PyStr comp_text);
          comp = parse_compliance_json rt comp_text
      in (case attr_get (dict_get_default comp ''compliance'' (PyDict [])) ''is_compliant'' (PyBool False) of
            Inl e \<Rightarrow> (state1, Inl e)
          | Inr is_compliant \<Rightarrow>
              if truthy is_compliant \<and> \<not> truthy (dict_get_default comp ''needs_human_review'' (PyBool False))
              then (state1,
                    Inr (Save_results [(''approved'', PyBool True), (''auto'', PyBool True),
                                       (''compliance'', PyDict comp)]))
              else
                (case attr_get (dict_get_default comp ''compliance'' (PyDict [])) ''notes'' (PyList []) of
                   Inl e \<Rightarrow> (state1, Inl e)
                 | Inr notes \<Rightarrow>
                     let extracted_text = py_str rt (Val (dict_get_default state1 ''extractor_text'' (PyStr [])));
                         notes_text =
                           (case notes of
                              PyList xs \<Rightarrow> join ''; '' (map (\<lambda>x. py_str rt (Val x)) xs)
                            | _ \<Rightarrow> py_str rt (Val notes))
                     in (state1,
                         Inr (Human_review_exec
                           \<lparr>packet_document_uri = py_str rt (Val (dict_get_default state1 ''document_uri'' (PyStr []))),
                            summary = take 1000 extracted_text,
                            compliance_notes = (if notes_text = [] then ''(no notes)'' else notes_text),
                            prompt = ''Approve or Reject? (type 'approve' / 'reject')''\<rparr>)))))"

section \<open>Example inputs\<close>

text \<open>
  A runtime and collaborators for the concrete runs below.  The JSON functions are
  \<^verbatim>\<open>json.loads\<close> and \<^verbatim>\<open>json.dumps\<close> cut down to the texts and values those runs reach:
  the two JSON texts of the table are decoded, the other texts the runs decode (the
  empty text and plain prose) are no JSON.
\<close>

definition example_loads :: "string \<Rightarrow> pyval option" where
  \<open>example_loads =
     [''{}'' \<mapsto> PyDict [],
      ''{"compliant": true}'' \<mapsto> PyDict [(''compliant'', PyBool True)]]\<close>

definition example_dumps :: "pyval \<Rightarrow> string" where
  \<open>example_dumps v =
     (if v = PyDict [(''overall_status'', PyStr ''rejected_by_human''), (''remarks'', PyStr ''Rejected'')]
      then ''{"overall_status": "rejected_by_human", "remarks": "Rejected"}''
      else if v = PyDict [(''overall_status'', PyStr ''rejected_by_human''), (''remarks'', PyStr ''wrong year'')]
      then ''{"overall_status": "rejected_by_human", "remarks": "wrong year"}''
      else [])\<close>

fun example_str :: "msg \<Rightarrow> string" where
  "example_str (Val PyNone) = ''None''"
| "example_str (Val (PyStr s)) = s"
| "example_str m = []"

fun example_exception_str :: "error \<Rightarrow> string" where
  "example_exception_str (Raised m) = m"
| "example_exception_str e = []"

definition python0 :: python where
  "python0 =
     \<lparr>json_loads = example_loads, json_dumps = example_dumps, json_dumps_compact = example_dumps,
      builtin_str = example_str, exception_str = example_exception_str, slice_hashable = True\<rparr>"

definition services0 :: services where
  \<open>services0 =
     \<lparr>run_extractor_20_agent = (\<lambda>prompt. Inr ''Form 1040, tax year 2023''),
      run_compliance_20_agent = (\<lambda>text. Inr ''{"compliant": true}''),
      uuid4 = (\<lambda>n. ''uuid-'' @ replicate (Suc n) (CHR ''x'')),
      new_request_id = (\<lambda>n. ''req-'' @ replicate (Suc n) (CHR ''x''))\<rparr>\<close>

section \<open>Suspending and resuming\<close>

text \<open>The messages a step sent, in order.\<close>

fun message_of :: "action \<Rightarrow> msg list" where
  "message_of (Send_message m t) = [m]"
| "message_of a = []"

definition sent_messages :: "action list \<Rightarrow> msg list" where
  "sent_messages acts = concat (map message_of acts)"

text \<open>
  A suspension followed by its answer: \<^verbatim>\<open>prepare_request\<close> on the payload in flight,
  then \<^verbatim>\<open>handle_response\<close> on the answer, with the messages the latter sends on.
\<close>

definition suspend_resume ::
  "python \<Rightarrow> string \<Rightarrow> string \<Rightarrow> RequestResponse \<Rightarrow> approval_context \<Rightarrow> error + msg list" where
  "suspend_resume rt rid prev feedback ctx =
     (case prepare_request rt rid prev ctx of
        Inl e \<Rightarrow> Inl e
      | Inr (ctx1, acts) \<Rightarrow> Inr (sent_messages (snd (handle_response rt feedback ctx1))))"

text \<open>
  The spec's reference for the round trip: the step as if it had received the answer
  synchronously with its input, forwarding the input when approved.
\<close>

definition synchronous_review :: "python \<Rightarrow> string \<Rightarrow> ApprovalResponse \<Rightarrow> action list" where
  "synchronous_review rt prev answer =
     [Send_message (Val (PyStr (if resp_approved answer then prev else rejection rt answer))) None]"

section \<open>Facts about the steps and the engine\<close>

lemma handle_response_rejected:
  "\<not> resp_approved (rr_data feedback) \<Longrightarrow>
   snd (handle_response rt feedback ctx) =
     [Add_event [(''type'', PyStr ''hitl''), (''status'', PyStr ''rejected''),
                 (''approval_id'', PyStr (resp_approval_id (rr_data feedback)))],
      Send_message (Val (PyStr (rejection rt (rr_data feedback)))) None]"
  by (simp add: handle_response_def Let_def split: prod.splits)

lemma rejection_text:
  "rejection rt response =
     json_dumps rt (PyDict
       [(''overall_status'', PyStr ''rejected_by_human''),
        (''remarks'', PyStr (case resp_comment response of
                               None \<Rightarrow> ''Rejected''
                             | Some c \<Rightarrow> if c = [] then ''Rejected'' else c))])"
  by (simp add: rejection_def py_or_def split: option.splits)

lemma supersteps_unfold:
  "supersteps n rt sv g (d # ready) st =
     (if n = 0 then (([], Some IterationLimitExceeded), st)
      else (case deliver rt sv g (d # ready) st of
              (st1, evs, sent, Continue) \<Rightarrow>
                (case supersteps (n - 1) rt sv g sent st1 of
                   ((evs', err), st2) \<Rightarrow> ((evs @ evs', err), st2))
            | (st1, evs, sent, Completed) \<Rightarrow> ((evs, None), st1)
            | (st1, evs, sent, Failed e) \<Rightarrow> ((evs, Some e), st1)))"
  by (cases n) simp_all

lemma successors_workflow_small:
  "successors workflow_small ''doc_prompt'' = [''extractor_node'']"
  "successors workflow_small ''extractor_node'' = [''extractor_result_node'']"
  "successors workflow_small ''extractor_result_node'' = [''compliance_node'']"
  "successors workflow_small ''compliance_node'' = [''compliance_result_node'']"
  "successors workflow_small ''compliance_result_node'' = [''hitl_coordinator'']"
  "successors workflow_small ''hitl_coordinator'' = [''human_review_exec'', ''final_result_placeholder'']"
  "successors workflow_small ''human_review_exec'' = [''hitl_coordinator'']"
  "successors workflow_small ''final_result_placeholder'' = []"
  by (simp_all add: successors_def workflow_small_def)

lemma workflow_small_fields:
  "max_iterations workflow_small = 80" "start_executor workflow_small = ''doc_prompt''"
  by (simp_all add: workflow_small_def)

lemma resume_rejected:
  assumes "\<not> resp_approved response" and "take_request q (outstanding st) = Some (r, rest)"
  shows "fst (send_responses_streaming rt sv workflow_small [(q, response)] st) =
     ([WorkflowEvent (PyDict [(''type'', PyStr ''hitl''), (''status'', PyStr ''rejected''),
                             (''approval_id'', PyStr (resp_approval_id response))]),
       ExecutorCompletedEvent ''hitl_coordinator'',
       WorkflowOutputEvent (Val (PyStr (rejection rt response)))], None)"
  using assms
  by (simp add: send_responses_streaming_def successors_workflow_small workflow_small_fields
      supersteps_unfold execute_def handle_response_def Let_def final_result_placeholder_def
      case_prod_beta)

text \<open>A session as \<^verbatim>\<open>start_workflow\<close> creates it, and a bridge that has served nothing yet.\<close>

definition session0 :: session where
  "session0 = \<lparr>status = ''initializing'', session_document_uri = ''doc-1'', pending_responses = None\<rparr>"

definition doc0 :: DocInput where
  "doc0 = \<lparr>document_uri = ''doc-1'', document_title = None, page_count = None\<rparr>"

definition engine0 :: engine_state where
  "engine0 = \<lparr>APPROVAL_CONTEXT = Map.empty, outstanding = [], uuids_used = 0, requests_made = 0\<rparr>"

definition bridge0 :: "engine_state bridge" where
  "bridge0 =
     \<lparr>api = \<lparr>workflow_sessions = [''s1'' \<mapsto> session0], pending_approvals = Map.empty\<rparr>,
      schedule = [], engine = engine0, invocations = []\<rparr>"

section \<open>The first pass of the document workflow\<close>

text \<open>
  When both agents return and \<^verbatim>\<open>prepare_request\<close> finds a uri and a preview, the
  first pass runs the seven steps in a row and stops at the request for approval.
\<close>

lemma first_pass:
  assumes "run_extractor_20_agent sv (prompt_text rt doc) = Inr e"
    and "run_compliance_20_agent sv e = Inr c"
    and "uri_and_preview rt c = Inr (uri, preview)"
  shows "run_stream rt sv workflow_small doc st =
     (([ExecutorCompletedEvent ''doc_prompt'',
        WorkflowEvent (PyDict (progress ''extraction'' ''running'')),
        ExecutorCompletedEvent ''extractor_node'',
        WorkflowEvent (PyDict (progress ''extraction'' ''completed'')),
        ExecutorCompletedEvent ''extractor_result_node'',
        WorkflowEvent (PyDict (progress ''compliance'' ''running'')),
        ExecutorCompletedEvent ''compliance_node'',
        WorkflowEvent (PyDict (progress ''compliance'' ''completed'')),
        ExecutorCompletedEvent ''compliance_result_node'',
        ExecutorCompletedEvent ''hitl_coordinator'',
        RequestInfoEvent (new_request_id sv (requests_made st))
          \<lparr>req_approval_id = uuid4 sv (uuids_used st),
           req_title = ''Manual approval required'',
           req_message = ''Please review the extracted result.'',
           req_source_uri = uri, req_preview = preview\<rparr>,
        ExecutorCompletedEvent ''human_review_exec''], None),
      st\<lparr>APPROVAL_CONTEXT :=
           (APPROVAL_CONTEXT st)(uuid4 sv (uuids_used st) \<mapsto>
              [(''payload'', PyStr c), (''source_uri'', uri), (''preview'', preview)]),
         outstanding := outstanding st @
           [(new_request_id sv (requests_made st),
             \<lparr>req_approval_id = uuid4 sv (uuids_used st),
              req_title = ''Manual approval required'',
              req_message = ''Please review the extracted result.'',
              req_source_uri = uri, req_preview = preview\<rparr>)],
         uuids_used := Suc (uuids_used st),
         requests_made := Suc (requests_made st)\<rparr>)"
  using assms
  by (simp add: run_stream_def successors_workflow_small workflow_small_fields
      supersteps_unfold execute_def build_prompt_def extractor_node_def extractor_result_def
      compliance_node_def compliance_result_def prepare_request_def)

text \<open>The run state the example agents leave behind: one request outstanding.\<close>

definition request0 :: ApprovalRequest where
  "request0 =
     \<lparr>req_approval_id = ''uuid-x'', req_title = ''Manual approval required'',
      req_message = ''Please review the extracted result.'',
      req_source_uri = PyStr ''n/a'', req_preview = PyStr ''No preview''\<rparr>"

definition suspended0 :: engine_state where
  \<open>suspended0 =
     \<lparr>APPROVAL_CONTEXT =
        [''uuid-x'' \<mapsto> [(''payload'', PyStr ''{"compliant": true}''),
                        (''source_uri'', PyStr ''n/a''), (''preview'', PyStr ''No preview'')]],
      outstanding = [(''req-x'', request0)], uuids_used = 1, requests_made = 1\<rparr>\<close>

lemma example_uri_and_preview:
  \<open>uri_and_preview python0 ''{"compliant": true}'' = Inr (PyStr ''n/a'', PyStr ''No preview'')\<close>
  by (simp add: uri_and_preview_def parse_input_def python0_def example_loads_def attr_get_def
      dict_get_default_def py_or_def preview_of_def)

section \<open>Claim C7: a rejected answer ends the run with the rejection payload\<close>

text \<open>
  C7.  For every suspended run (\<open>q\<close> is an outstanding request of \<open>st\<close>), resuming with
  an answer whose decision is false makes \<^verbatim>\<open>handle_response\<close> send exactly the rejection
  message, \<^verbatim>\<open>final_result_placeholder\<close> yields it, the resumed stream ends without an
  exception, and the last record the bridge makes of that stream is
  \<^verbatim>\<open>workflow_completed\<close> with the rejection message as its result.  The message is the
  JSON text of \<^verbatim>\<open>overall_status: rejected_by_human\<close> with the comment as remarks
  (\<^verbatim>\<open>Rejected\<close> when the comment is missing or empty), whatever payload was in flight.
\<close>

theorem rejected_answer_completes_rejected:
  assumes "\<not> resp_approved response"
    and "take_request q (outstanding st) = Some (r, rest)"
  shows "sent_messages (snd (handle_response rt
             \<lparr>rr_data = response, rr_original_request = r, rr_request_id = q\<rparr> ctx))
           = [Val (PyStr (rejection rt response))]
       \<and> final_result_placeholder (Val (PyStr (rejection rt response)))
           = [Yield_output (Val (PyStr (rejection rt response)))]
       \<and> snd (fst (send_responses_streaming rt sv workflow_small [(q, response)] st)) = None
       \<and> last (fst (consume rt sid
                 (fst (fst (send_responses_streaming rt sv workflow_small [(q, response)] st))) [] b))
           = format_sse ''workflow_completed''
               [(''session_id'', PyStr sid), (''result'', PyStr (rejection rt response))]
       \<and> rejection rt response =
           json_dumps rt (PyDict
             [(''overall_status'', PyStr ''rejected_by_human''),
              (''remarks'', PyStr (case resp_comment response of
                                     None \<Rightarrow> ''Rejected''
                                   | Some c \<Rightarrow> if c = [] then ''Rejected'' else c))])"
proof -
  have "sent_messages (snd (handle_response rt
             \<lparr>rr_data = response, rr_original_request = r, rr_request_id = q\<rparr> ctx))
           = [Val (PyStr (rejection rt response))]"
    using assms(1) by (simp add: handle_response_rejected sent_messages_def)
  moreover have "final_result_placeholder (Val (PyStr (rejection rt response)))
           = [Yield_output (Val (PyStr (rejection rt response)))]"
    by (simp add: final_result_placeholder_def)
  moreover note resume_rejected [OF assms, of rt sv] rejection_text [of rt response]
  ultimately show ?thesis
    by (simp add: custom_event_def dict_get_def dict_get_default_def format_sse_def py_str_def
        case_prod_beta)
qed

text \<open>
  C7 at the suspended example run, rejected with the comment \<^verbatim>\<open>wrong year\<close>.
\<close>

theorem rejected_answer_witness:
  \<open>\<not> resp_approved \<lparr>resp_approval_id = ''uuid-x'', resp_approved = False, resp_comment = Some ''wrong year''\<rparr>
   \<and> take_request ''req-x'' (outstanding suspended0) = Some (request0, [])
   \<and> last (fst (consume python0 ''s1''
         (fst (fst (send_responses_streaming python0 services0 workflow_small
            [(''req-x'', \<lparr>resp_approval_id = ''uuid-x'', resp_approved = False,
                           resp_comment = Some ''wrong year''\<rparr>)] suspended0))) [] bridge0))
       = Sse ''workflow_completed''
           [(''session_id'', PyStr ''s1''),
            (''result'', PyStr ''{"overall_status": "rejected_by_human", "remarks": "wrong year"}'')]\<close>
proof -
  have h1: "\<not> resp_approved \<lparr>resp_approval_id = ''uuid-x'', resp_approved = False, resp_comment = Some ''wrong year''\<rparr>"
    by simp
  have h2: "take_request ''req-x'' (outstanding suspended0) = Some (request0, [])"
    by (simp add: suspended0_def)
  show ?thesis
    using h1 h2 rejected_answer_completes_rejected [OF h1 h2, of python0 ctx services0 "''s1''" bridge0 for ctx]
    by (simp add: format_sse_def python0_def example_dumps_def)
qed

section \<open>Claim C6: the round trip of an approved answer\<close>

lemma prepare_request_Inr:
  "prepare_request rt rid prev ctx = Inr (ctx1, acts) \<Longrightarrow>
   \<exists>uri preview. ctx1 = ctx(rid \<mapsto> [(''payload'', PyStr prev), (''source_uri'', uri), (''preview'', preview)])"
  by (auto simp: prepare_request_def split: sum.splits prod.splits)

text \<open>
  C6 as stated fails for the empty payload: \<^verbatim>\<open>if response.approved and payload\<close> takes
  the empty string for a missing payload, so the matching approved answer sends the
  rejection message on instead of the payload in flight.
\<close>

theorem round_trip_counterexample:
  \<open>suspend_resume python0 ''uuid-x'' []
      \<lparr>rr_data = \<lparr>resp_approval_id = ''uuid-x'', resp_approved = True, resp_comment = None\<rparr>,
       rr_original_request = request0, rr_request_id = ''req-x''\<rparr> Map.empty
    = Inr [Val (PyStr ''{"overall_status": "rejected_by_human", "remarks": "Rejected"}'')]\<close>
  by (simp add: suspend_resume_def prepare_request_def uri_and_preview_def parse_input_def
      python0_def example_loads_def handle_response_def pop_context_def dict_get_def
      dict_get_default_def sent_messages_def rejection_def py_or_def example_dumps_def)

text \<open>
  C6, amended.  When the payload in flight is not the empty string, a suspension
  (\<^verbatim>\<open>prepare_request\<close> returning) followed by the matching approved answer sends on
  exactly that payload, which is what the step would send had it received the answer
  synchronously with its input.
\<close>

theorem round_trip_approved:
  assumes "prev \<noteq> []"
    and "resp_approval_id (rr_data feedback) = rid"
    and "resp_approved (rr_data feedback)"
    and "prepare_request rt rid prev ctx = Inr (ctx1, acts)"
  shows "suspend_resume rt rid prev feedback ctx = Inr [Val (PyStr prev)]
       \<and> sent_messages (synchronous_review rt prev (rr_data feedback)) = [Val (PyStr prev)]"
proof -
  from assms(4) obtain uri preview where
    ctx1: "ctx1 = ctx(rid \<mapsto> [(''payload'', PyStr prev), (''source_uri'', uri), (''preview'', preview)])"
    by (blast dest: prepare_request_Inr)
  have "sent_messages (snd (handle_response rt feedback ctx1)) = [Val (PyStr prev)]"
    using assms(1-3)
    by (simp add: ctx1 handle_response_def pop_context_def dict_get_def dict_get_default_def
        sent_messages_def)
  then show ?thesis
    using assms(3,4) by (simp add: suspend_resume_def synchronous_review_def sent_messages_def)
qed

text \<open>C6, amended, at the example payload.\<close>

theorem round_trip_approved_witness:
  \<open>''{"compliant": true}'' \<noteq> []
   \<and> prepare_request python0 ''uuid-x'' ''{"compliant": true}'' Map.empty
       = Inr (APPROVAL_CONTEXT suspended0, [Send_message (Req request0) (Some ''human_review_exec'')])
   \<and> suspend_resume python0 ''uuid-x'' ''{"compliant": true}''
        \<lparr>rr_data = \<lparr>resp_approval_id = ''uuid-x'', resp_approved = True, resp_comment = None\<rparr>,
         rr_original_request = request0, rr_request_id = ''req-x''\<rparr> Map.empty
       = Inr [Val (PyStr ''{"compliant": true}'')]\<close>
proof -
  have h: \<open>prepare_request python0 ''uuid-x'' ''{"compliant": true}'' Map.empty
       = Inr (APPROVAL_CONTEXT suspended0, [Send_message (Req request0) (Some ''human_review_exec'')])\<close>
    by (simp add: prepare_request_def example_uri_and_preview suspended0_def request0_def)
  show ?thesis
    using h round_trip_approved [OF _ _ _ h,
        of "\<lparr>rr_data = \<lparr>resp_approval_id = ''uuid-x'', resp_approved = True, resp_comment = None\<rparr>,
         rr_original_request = request0, rr_request_id = ''req-x''\<rparr>"]
    by simp
qed

section \<open>Claim C4: answers for unknown ids\<close>

text \<open>
  C4 as stated fails at the coordinator: an approved answer whose approval id has no
  cached context raises nothing; \<^verbatim>\<open>handle_response\<close> sends the rejection message on,
  which advances the run to its final step.
\<close>

theorem unknown_approval_id_counterexample:
  \<open>snd (handle_response python0
      \<lparr>rr_data = \<lparr>resp_approval_id = ''no-such-id'', resp_approved = True, resp_comment = None\<rparr>,
       rr_original_request = request0, rr_request_id = ''req-x''\<rparr> (APPROVAL_CONTEXT suspended0))
    = [Add_event [(''type'', PyStr ''hitl''), (''status'', PyStr ''approved''),
                  (''approval_id'', PyStr ''no-such-id'')],
       Send_message (Val (PyStr ''{"overall_status": "rejected_by_human", "remarks": "Rejected"}'')) None]\<close>
  by (simp add: handle_response_def pop_context_def suspended0_def dict_get_def dict_get_default_def
      rejection_def py_or_def python0_def example_dumps_def)

text \<open>
  C4, amended.  At the submit entry point an answer whose request id is not in
  \<^verbatim>\<open>pending_approvals\<close> is refused with status 404 and both dicts stay as they are.
  At the coordinator an answer whose approval id is not in \<^verbatim>\<open>APPROVAL_CONTEXT\<close> raises
  no error: the dict stays as it is and the answer is handled as a rejection, the
  rejection message being sent on.
\<close>

theorem unknown_id_rejected_or_treated_as_rejection:
  assumes "pending_approvals g (request_id decision) = None"
    and "ctx (resp_approval_id (rr_data feedback)) = None"
  shows "submit_approval g decision = (Inl (HTTPException 404 ''Approval request not found''), g)
       \<and> handle_response rt feedback ctx =
           (ctx,
            [Add_event [(''type'', PyStr ''hitl''),
                        (''status'', PyStr (if resp_approved (rr_data feedback) then ''approved'' else ''rejected'')),
                        (''approval_id'', PyStr (resp_approval_id (rr_data feedback)))],
             Send_message (Val (PyStr (rejection rt (rr_data feedback)))) None])"
  using assms
  by (simp add: submit_approval_def handle_response_def pop_context_def dict_get_def
      dict_get_default_def Let_def)

text \<open>C4, amended, at ids that the example stores do not hold.\<close>

theorem unknown_id_witness:
  \<open>pending_approvals (api bridge0) ''req-x'' = None
   \<and> APPROVAL_CONTEXT suspended0 ''no-such-id'' = None
   \<and> submit_approval (api bridge0)
        \<lparr>request_id = ''req-x'', approval_id = ''uuid-x'', approved = True, comment = None\<rparr>
       = (Inl (HTTPException 404 ''Approval request not found''), api bridge0)
   \<and> fst (handle_response python0
        \<lparr>rr_data = \<lparr>resp_approval_id = ''no-such-id'', resp_approved = True, resp_comment = None\<rparr>,
         rr_original_request = request0, rr_request_id = ''req-x''\<rparr> (APPROVAL_CONTEXT suspended0))
       = APPROVAL_CONTEXT suspended0\<close>
proof -
  show ?thesis
    using unknown_id_rejected_or_treated_as_rejection
      [where g = "api bridge0" and ctx = "APPROVAL_CONTEXT suspended0" and rt = python0
         and decision = "\<lparr>request_id = ''req-x'', approval_id = ''uuid-x'', approved = True, comment = None\<rparr>"
         and feedback = "\<lparr>rr_data = \<lparr>resp_approval_id = ''no-such-id'', resp_approved = True, resp_comment = None\<rparr>,
           rr_original_request = request0, rr_request_id = ''req-x''\<rparr>"]
    by (simp add: bridge0_def suspended0_def)
qed

section \<open>Claim C5: taking a request twice\<close>

text \<open>
  C5 as stated fails at the coordinator: the second take of the same approval id is
  no error.  \<^verbatim>\<open>pop\<close> returns the empty dict, and \<^verbatim>\<open>handle_response\<close>, given the same
  approved answer a second time, sends the rejection message on.
\<close>

theorem second_take_counterexample:
  \<open>fst (pop_context (snd (pop_context (APPROVAL_CONTEXT suspended0) ''uuid-x'')) ''uuid-x'') = []
   \<and> snd (handle_response python0
        \<lparr>rr_data = \<lparr>resp_approval_id = ''uuid-x'', resp_approved = True, resp_comment = None\<rparr>,
         rr_original_request = request0, rr_request_id = ''req-x''\<rparr>
        (fst (handle_response python0
           \<lparr>rr_data = \<lparr>resp_approval_id = ''uuid-x'', resp_approved = True, resp_comment = None\<rparr>,
            rr_original_request = request0, rr_request_id = ''req-x''\<rparr>
           (APPROVAL_CONTEXT suspended0))))
      = [Add_event [(''type'', PyStr ''hitl''), (''status'', PyStr ''approved''),
                    (''approval_id'', PyStr ''uuid-x'')],
         Send_message (Val (PyStr ''{"overall_status": "rejected_by_human", "remarks": "Rejected"}'')) None]\<close>
  by (simp add: handle_response_def pop_context_def suspended0_def dict_get_def dict_get_default_def
      rejection_def py_or_def python0_def example_dumps_def)

text \<open>
  C5, amended.  For a request id stored in \<^verbatim>\<open>pending_approvals\<close> whose session exists,
  the first submission succeeds and deletes the id, and the second is refused with
  status 404 and changes nothing, as for an unknown id.  For an approval id stored in
  \<^verbatim>\<open>APPROVAL_CONTEXT\<close>, the first \<^verbatim>\<open>pop\<close> returns the cached context and deletes the
  id, and the second returns the empty dict and changes nothing, as for an unknown id:
  a default, not an error.
\<close>

theorem taken_once:
  assumes "pending_approvals g (request_id decision) = Some info"
    and "workflow_sessions g (info_session_id info) = Some s"
    and "ctx approval = Some cached"
  shows "fst (submit_approval g decision) =
           Inr [(''status'', PyStr ''success''),
                (''message'', PyStr (''Approval '' @ (if approved decision then ''granted'' else ''rejected''))),
                (''approval_id'', PyStr (approval_id decision))]
       \<and> pending_approvals (snd (submit_approval g decision)) (request_id decision) = None
       \<and> submit_approval (snd (submit_approval g decision)) decision =
           (Inl (HTTPException 404 ''Approval request not found''), snd (submit_approval g decision))
       \<and> pop_context ctx approval = (cached, ctx(approval := None))
       \<and> pop_context (ctx(approval := None)) approval = ([], ctx(approval := None))"
proof -
  have first: "fst (submit_approval g decision) =
           Inr [(''status'', PyStr ''success''),
                (''message'', PyStr (''Approval '' @ (if approved decision then ''granted'' else ''rejected''))),
                (''approval_id'', PyStr (approval_id decision))]"
    using assms(1,2) by (simp add: submit_approval_def Let_def)
  have gone: "pending_approvals (snd (submit_approval g decision)) (request_id decision) = None"
    using assms(1,2) by (simp add: submit_approval_def Let_def)
  have second: "submit_approval (snd (submit_approval g decision)) decision =
           (Inl (HTTPException 404 ''Approval request not found''), snd (submit_approval g decision))"
    using gone by (simp add: submit_approval_def [of "snd (submit_approval g decision)"])
  have pop1: "pop_context ctx approval = (cached, ctx(approval := None))"
    using assms(3) by (simp add: pop_context_def)
  have pop2: "pop_context (ctx(approval := None)) approval = ([], ctx(approval := None))"
    by (simp add: pop_context_def)
  from first gone second pop1 pop2 show ?thesis by blast
qed

text \<open>The two dicts while the example request waits for its answer.\<close>

definition waiting_api :: api_state where
  "waiting_api =
     \<lparr>workflow_sessions = [''s1'' \<mapsto> session0],
      pending_approvals =
        [''req-x'' \<mapsto> \<lparr>info_session_id = ''s1'', approval_data = approval_fields ''req-x'' request0\<rparr>]\<rparr>"

text \<open>C5, amended, at the example request.\<close>

theorem taken_once_witness:
  \<open>pending_approvals waiting_api ''req-x''
       = Some \<lparr>info_session_id = ''s1'', approval_data = approval_fields ''req-x'' request0\<rparr>
   \<and> workflow_sessions waiting_api ''s1'' = Some session0
   \<and> fst (submit_approval waiting_api
        \<lparr>request_id = ''req-x'', approval_id = ''uuid-x'', approved = True, comment = None\<rparr>)
       = Inr [(''status'', PyStr ''success''), (''message'', PyStr ''Approval granted''),
              (''approval_id'', PyStr ''uuid-x'')]
   \<and> fst (submit_approval (snd (submit_approval waiting_api
        \<lparr>request_id = ''req-x'', approval_id = ''uuid-x'', approved = True, comment = None\<rparr>))
        \<lparr>request_id = ''req-x'', approval_id = ''uuid-x'', approved = True, comment = None\<rparr>)
       = Inl (HTTPException 404 ''Approval request not found'')
   \<and> fst (pop_context (APPROVAL_CONTEXT suspended0) ''uuid-x'')
       = [(''payload'', PyStr ''{"compliant": true}''),
          (''source_uri'', PyStr ''n/a''), (''preview'', PyStr ''No preview'')]\<close>
  using taken_once
    [where g = waiting_api and ctx = "APPROVAL_CONTEXT suspended0" and approval = "''uuid-x''"
       and decision = "\<lparr>request_id = ''req-x'', approval_id = ''uuid-x'', approved = True, comment = None\<rparr>"
       and info = "\<lparr>info_session_id = ''s1'', approval_data = approval_fields ''req-x'' request0\<rparr>"
       and s = session0]
  by (simp add: waiting_api_def suspended0_def)

section \<open>Claim C9: the blob sink never stores\<close>

text \<open>The effects that store a result: an upload and a yielded output.\<close>

fun stores :: "blob_effect \<Rightarrow> bool" where
  "stores Create_container = False"
| "stores (Upload_blob blob_name data) = True"
| "stores (Yielded result) = True"

text \<open>A configured environment in which every Azure call succeeds.\<close>

definition azure0 :: azure where
  "azure0 =
     \<lparr>environ = [''AZURE_STORAGE_ACCOUNT_URL'' \<mapsto> ''https://acct.blob.core.windows.net'',
                 ''AZURE_STORAGE_CONTAINER'' \<mapsto> ''doc-workflow-results''],
      default_credential_raises = False,
      cli_credential_raises = None,
      blob_service_client_raises = None,
      get_container_client_raises = None,
      name_from_uri = (\<lambda>uri. Inr ''doc-1''),
      stable_id = (\<lambda>key. Inr ''0f3a''),
      upload_blob_raises = None,
      today = ''2026/01/31''\<rparr>"

text \<open>
  C9.  For every input record, runtime and environment, \<^verbatim>\<open>save_result_to_blob\<close> ends
  with an exception and has neither uploaded a blob nor yielded an output.  The
  exception is the \<^verbatim>\<open>AttributeError\<close> of the date path, unless a statement before the
  date path raised first.
\<close>

theorem save_result_to_blob_never_stores:
  "snd (save_result_to_blob rt az prev) =
       Some (case snd (before_date_path rt az prev) of Inl e \<Rightarrow> e | Inr names \<Rightarrow> AttributeError)
   \<and> \<not> list_ex stores (fst (save_result_to_blob rt az prev))"
proof -
  have effs: "\<not> list_ex stores (fst (before_date_path rt az prev))"
    by (simp add: before_date_path_def Let_def split: option.splits sum.splits)
  show ?thesis
  proof (cases "before_date_path rt az prev")
    case (Pair effs' r)
    with effs show ?thesis
      by (cases r)
        (simp_all add: save_result_to_blob_def attribute_datetime_def imported_datetime_def
          split: prod.splits)
  qed
qed

text \<open>
  C9 in the configured environment: the date path is reached and raises
  \<^verbatim>\<open>AttributeError\<close>, after the attempt to create the container.
\<close>

theorem save_result_to_blob_configured:
  "snd (before_date_path python0 azure0 [(''source_uri'', PyStr ''doc-1''), (''status'', PyStr ''approved'')])
     = Inr (''https://acct.blob.core.windows.net'', ''doc-workflow-results'', ''doc-1'', ''doc-1'', ''0f3a'')
   \<and> save_result_to_blob python0 azure0 [(''source_uri'', PyStr ''doc-1''), (''status'', PyStr ''approved'')]
     = ([Create_container], Some AttributeError)"
proof -
  have b: "before_date_path python0 azure0 [(''source_uri'', PyStr ''doc-1''), (''status'', PyStr ''approved'')]
     = ([Create_container],
        Inr (''https://acct.blob.core.windows.net'', ''doc-workflow-results'', ''doc-1'', ''doc-1'', ''0f3a''))"
    by (simp add: before_date_path_def azure0_def python0_def py_str_def dict_get_default_def)
  have e: "fst (save_result_to_blob python0 azure0 [(''source_uri'', PyStr ''doc-1''), (''status'', PyStr ''approved'')])
     = [Create_container]"
    by (simp add: save_result_to_blob_def b attribute_datetime_def imported_datetime_def)
  show ?thesis
    using save_result_to_blob_never_stores
      [of python0 azure0 "[(''source_uri'', PyStr ''doc-1''), (''status'', PyStr ''approved'')]"] b e
    by (simp add: prod_eq_iff)
qed

section \<open>Claim C10: compliance output that is not JSON\<close>

text \<open>
  C10 as stated fails for the empty string, which is no JSON: \<^verbatim>\<open>text or "{}"\<close> parses
  the empty object instead, and \<^verbatim>\<open>needs_human_review\<close> defaults to false with no note.
\<close>

theorem empty_text_counterexample:
  "json_loads python0 [] = None
   \<and> parse_compliance_json python0 [] = [(''compliance'', PyDict []), (''needs_human_review'', PyBool False)]"
  by (simp add: parse_compliance_json_def python0_def example_loads_def)

text \<open>
  C10, amended.  For every output string that is no JSON, the adapter sends the packet
  to human review and never takes the auto-pass branch.  For a non-empty such string
  \<^verbatim>\<open>_parse_compliance_json\<close> forces \<^verbatim>\<open>needs_human_review\<close> to true with the raw text
  as the note; for the empty string it returns an empty \<^verbatim>\<open>compliance\<close> entry with
  \<^verbatim>\<open>needs_human_review\<close> false, and the run goes to review because \<^verbatim>\<open>is_compliant\<close>
  defaults to false.
\<close>

theorem invalid_json_goes_to_review:
  assumes "json_loads rt text = None" and "json_loads rt ''{}'' = Some (PyDict [])"
  shows "(\<exists>packet. snd (on_compliance rt (Some text) state) = Inr (Human_review_exec packet))
       \<and> parse_compliance_json rt text =
           (if text = [] then [(''compliance'', PyDict []), (''needs_human_review'', PyBool False)]
            else forced_review text)"
proof -
  have p: "parse_compliance_json rt text =
           (if text = [] then [(''compliance'', PyDict []), (''needs_human_review'', PyBool False)]
            else forced_review text)"
    using assms by (simp add: parse_compliance_json_def)
  have "\<exists>packet. snd (on_compliance rt (Some text) state) = Inr (Human_review_exec packet)"
  proof (cases "text = []")
    case True
    with p have "parse_compliance_json rt [] = [(''compliance'', PyDict []), (''needs_human_review'', PyBool False)]"
      by simp
    with True show ?thesis
      by (simp add: on_compliance_def Let_def attr_get_def dict_get_default_def)
  next
    case False
    with p have "parse_compliance_json rt text = forced_review text" by simp
    then show ?thesis
      by (simp add: on_compliance_def forced_review_def Let_def attr_get_def dict_get_default_def)
  qed
  with p show ?thesis by simp
qed

text \<open>C10, amended, at an output in plain prose.\<close>

theorem invalid_json_witness:
  "json_loads python0 ''The filing looks complete.'' = None
   \<and> json_loads python0 ''{}'' = Some (PyDict [])
   \<and> parse_compliance_json python0 ''The filing looks complete.''
       = [(''compliance'', PyDict [(''is_compliant'', PyBool False),
                                  (''notes'', PyList [PyStr ''The filing looks complete.''])]),
          (''needs_human_review'', PyBool True)]
   \<and> (\<exists>packet. snd (on_compliance python0 (Some ''The filing looks complete.'') [])
                   = Inr (Human_review_exec packet))"
proof -
  have h1: "json_loads python0 ''The filing looks complete.'' = None"
    by (simp add: python0_def example_loads_def)
  have h2: "json_loads python0 ''{}'' = Some (PyDict [])"
    by (simp add: python0_def example_loads_def)
  show ?thesis
    using h1 h2 invalid_json_goes_to_review [OF h1 h2, of "[]"]
    by (simp add: forced_review_def)
qed

section \<open>The loop of the generator runs once\<close>

text \<open>
  The local dict of the generator is empty whenever the polling loop reads it, so the
  loop never finds an answer: with a request outstanding it sleeps \<^verbatim>\<open>max_wait\<close> times
  and times out, and the recursive call of \<^const>\<open>workflow_loop\<close> is never reached.
\<close>

lemma wait_empty_state:
  "reqs \<noteq> [] \<Longrightarrow> wait_for_approval n [] reqs b = (False, (clients ^^ n) b)"
  by (induction n arbitrary: b) (simp_all add: not_ready_empty funpow_swap1)

declare workflow_loop.simps [simp del]

lemma workflow_loop_once:
  "workflow_loop rt flow sid doc_input local_responses b =
     (case invoke flow doc_input local_responses b of
        (strm, local1, b1) \<Rightarrow>
     (case consume rt sid (fst strm) [] b1 of
        (out, reqs, returned, b2) \<Rightarrow>
          if returned then (out, b2)
          else (case snd strm of
                  Some e \<Rightarrow> (out @ [error_record rt e], b2)
                | None \<Rightarrow>
                    if reqs \<noteq> []
                    then (out @ [waiting_record reqs, timeout_record], (clients ^^ max_wait) (clients b2))
                    else (out, b2))))"
proof -
  obtain strm local1 b1 where inv: "invoke flow doc_input local_responses b = (strm, local1, b1)"
    by (cases "invoke flow doc_input local_responses b") auto
  then have l: "local1 = []" by (rule invoke_local)
  obtain out reqs returned b2 where c: "consume rt sid (fst strm) [] b1 = (out, reqs, returned, b2)"
    by (cases "consume rt sid (fst strm) [] b1") auto
  show ?thesis
    by (subst workflow_loop.simps)
      (simp add: inv l c wait_empty_state split: option.splits)
qed

lemma clients_funpow:
  "(clients ^^ n) b =
     b\<lparr>api := foldl submit_all (api b) (take n (schedule b)), schedule := drop n (schedule b)\<rparr>"
proof (induction n arbitrary: b)
  case 0
  show ?case by simp
next
  case (Suc n)
  have "(clients ^^ Suc n) b = (clients ^^ n) (clients b)"
    by (simp add: funpow_swap1)
  also have "\<dots> = (clients b)\<lparr>api := foldl submit_all (api (clients b)) (take n (schedule (clients b))),
                                 schedule := drop n (schedule (clients b))\<rparr>"
    by (rule Suc)
  also have "\<dots> = b\<lparr>api := foldl submit_all (api b) (take (Suc n) (schedule b)),
                        schedule := drop (Suc n) (schedule b)\<rparr>"
    by (cases "schedule b") (simp_all add: clients_def)
  finally show ?case .
qed

section \<open>The records of a stream\<close>

text \<open>
  The records \<^const>\<open>consume\<close> yields depend on the events only: each event up to the
  first output event gives its records, and the requests collected are those of these
  events.
\<close>

fun is_output :: "event \<Rightarrow> bool" where
  "is_output (WorkflowOutputEvent data) = True"
| "is_output e = False"

fun until_output :: "event list \<Rightarrow> event list" where
  "until_output [] = []"
| "until_output (e # evs) = (if is_output e then [e] else e # until_output evs)"

fun record_of :: "python \<Rightarrow> string \<Rightarrow> event \<Rightarrow> sse list" where
  "record_of rt sid (WorkflowOutputEvent data) =
     [format_sse ''workflow_completed'' [(''session_id'', PyStr sid), (''result'', PyStr (py_str rt data))]]"
| "record_of rt sid (RequestInfoEvent rid req) = [format_sse ''approval_required'' (approval_fields rid req)]"
| "record_of rt sid (WorkflowEvent event_data) = custom_event event_data"
| "record_of rt sid (ExecutorCompletedEvent executor_id) = custom_event PyNone"

fun request_of :: "event \<Rightarrow> (string \<times> ApprovalRequest) list" where
  "request_of (RequestInfoEvent rid req) = [(rid, req)]"
| "request_of e = []"

lemma until_output_id: "\<not> list_ex is_output evs \<Longrightarrow> until_output evs = evs"
  by (induction evs) auto

lemma consume_records:
  "fst (consume rt sid evs reqs b) = concat (map (record_of rt sid) (until_output evs))"
  by (induction rt sid evs reqs b rule: consume.induct) (simp_all add: Let_def case_prod_beta)

lemma consume_requests:
  "fst (snd (consume rt sid evs reqs b)) = reqs @ concat (map request_of (until_output evs))"
  by (induction rt sid evs reqs b rule: consume.induct) (simp_all add: Let_def case_prod_beta)

lemma consume_returned:
  "fst (snd (snd (consume rt sid evs reqs b))) = list_ex is_output evs"
  by (induction rt sid evs reqs b rule: consume.induct) (simp_all add: Let_def case_prod_beta)

lemma consume_engine:
  "engine (snd (snd (snd (consume rt sid evs reqs b)))) = engine b
   \<and> invocations (snd (snd (snd (consume rt sid evs reqs b)))) = invocations b"
  by (induction rt sid evs reqs b rule: consume.induct)
    (simp_all add: Let_def case_prod_beta clients_def split: list.splits)

text \<open>What the loop yields after the two opening_records records, by the way the stream ends.\<close>

definition closing_records :: "python \<Rightarrow> event list \<Rightarrow> error option \<Rightarrow> sse list" where
  "closing_records rt evs err =
     (if list_ex is_output evs then []
      else (case err of
              Some e \<Rightarrow> [error_record rt e]
            | None \<Rightarrow>
                if concat (map request_of evs) \<noteq> []
                then [waiting_record (concat (map request_of evs)), timeout_record]
                else []))"

lemma workflow_loop_records:
  assumes "wf_run_stream flow doc_input (engine b) = ((evs, err), w)"
  shows "fst (workflow_loop rt flow sid doc_input [] b) =
           concat (map (record_of rt sid) (until_output evs)) @ closing_records rt evs err"
    and "invocations (snd (workflow_loop rt flow sid doc_input [] b)) = invocations b @ [Run_stream doc_input]"
proof -
  let ?b1 = "b\<lparr>engine := w, invocations := invocations b @ [Run_stream doc_input]\<rparr>"
  have inv: "invoke flow doc_input [] b = ((evs, err), [], ?b1)"
    using assms by (simp add: invoke_def)
  obtain out reqs returned b2 where c: "consume rt sid evs [] ?b1 = (out, reqs, returned, b2)"
    by (cases "consume rt sid evs [] ?b1") auto
  have out: "out = concat (map (record_of rt sid) (until_output evs))"
    using consume_records [of rt sid evs "[]" ?b1] c by simp
  have reqs: "reqs = concat (map request_of (until_output evs))"
    using consume_requests [of rt sid evs "[]" ?b1] c by simp
  have ret: "returned = list_ex is_output evs"
    using consume_returned [of rt sid evs "[]" ?b1] c by simp
  have eng: "invocations b2 = invocations b @ [Run_stream doc_input]"
    using consume_engine [of rt sid evs "[]" ?b1] c by simp
  have fp: "invocations ((clients ^^ n) b') = invocations b'" for n and b' :: "'a bridge"
    by (simp add: clients_funpow)
  have cl: "invocations (clients b') = invocations b'" for b' :: "'a bridge"
    by (simp add: clients_def split: list.splits)
  show "fst (workflow_loop rt flow sid doc_input [] b) =
           concat (map (record_of rt sid) (until_output evs)) @ closing_records rt evs err"
  proof (cases "list_ex is_output evs")
    case True
    then show ?thesis
      by (simp add: workflow_loop_once inv c out ret closing_records_def)
  next
    case False
    then have u: "until_output evs = evs" by (rule until_output_id)
    from False show ?thesis
      by (simp add: workflow_loop_once inv c out reqs ret closing_records_def u split: option.splits)
  qed
  show "invocations (snd (workflow_loop rt flow sid doc_input [] b)) = invocations b @ [Run_stream doc_input]"
    by (simp add: workflow_loop_once inv c eng fp cl split: option.splits)
qed

section \<open>The example run through the bridge\<close>

text \<open>
  The reviewer's answer to the example request, the events of the example run, and a
  bridge whose client submits that answer while the generator sleeps for the first
  time (the batches before it are empty: one for each of the twelve events and one
  for the record \<^verbatim>\<open>waiting_for_approval\<close>).
\<close>

definition decision0 :: ApprovalDecision where
  "decision0 = \<lparr>request_id = ''req-x'', approval_id = ''uuid-x'', approved = True, comment = None\<rparr>"

lemma example_run_stream:
  "run_stream python0 services0 workflow_small doc0 engine0 =
     (([ExecutorCompletedEvent ''doc_prompt'',
        WorkflowEvent (PyDict (progress ''extraction'' ''running'')),
        ExecutorCompletedEvent ''extractor_node'',
        WorkflowEvent (PyDict (progress ''extraction'' ''completed'')),
        ExecutorCompletedEvent ''extractor_result_node'',
        WorkflowEvent (PyDict (progress ''compliance'' ''running'')),
        ExecutorCompletedEvent ''compliance_node'',
        WorkflowEvent (PyDict (progress ''compliance'' ''completed'')),
        ExecutorCompletedEvent ''compliance_result_node'',
        ExecutorCompletedEvent ''hitl_coordinator'',
        RequestInfoEvent ''req-x'' request0,
        ExecutorCompletedEvent ''human_review_exec''], None), suspended0)"
proof -
  have a: "run_extractor_20_agent services0 (prompt_text python0 doc0) = Inr ''Form 1040, tax year 2023''"
    by (simp add: services0_def)
  have b: \<open>run_compliance_20_agent services0 ''Form 1040, tax year 2023'' = Inr ''{"compliant": true}''\<close>
    by (simp add: services0_def)
  show ?thesis
    unfolding first_pass [OF a b example_uri_and_preview]
    by (simp add: engine0_def suspended0_def services0_def request0_def)
qed

definition example_events :: "event list" where
  "example_events =
     [ExecutorCompletedEvent ''doc_prompt'',
      WorkflowEvent (PyDict (progress ''extraction'' ''running'')),
      ExecutorCompletedEvent ''extractor_node'',
      WorkflowEvent (PyDict (progress ''extraction'' ''completed'')),
      ExecutorCompletedEvent ''extractor_result_node'',
      WorkflowEvent (PyDict (progress ''compliance'' ''running'')),
      ExecutorCompletedEvent ''compliance_node'',
      WorkflowEvent (PyDict (progress ''compliance'' ''completed'')),
      ExecutorCompletedEvent ''compliance_result_node'',
      ExecutorCompletedEvent ''hitl_coordinator'',
      RequestInfoEvent ''req-x'' request0,
      ExecutorCompletedEvent ''human_review_exec'']"

definition answering_bridge :: "engine_state bridge" where
  "answering_bridge = bridge0\<lparr>schedule := [[], [], [], [], [], [], [], [], [], [], [], [], [], [decision0]]\<rparr>"

text \<open>The two records every stream opens with.\<close>

definition opening_records :: "string \<Rightarrow> session \<Rightarrow> sse list" where
  "opening_records sid s =
     [format_sse ''connected'' [(''session_id'', PyStr sid)],
      format_sse ''workflow_started''
        [(''session_id'', PyStr sid), (''document_uri'', PyStr (session_document_uri s))]]"

lemma generator_records:
  assumes "wf_run_stream flow
             \<lparr>document_uri = session_document_uri s, document_title = None, page_count = None\<rparr>
             (engine b) = ((evs, err), w)"
  shows "fst (event_generator rt (Inr flow) sid s b) =
           opening_records sid s @ concat (map (record_of rt sid) (until_output evs)) @ closing_records rt evs err"
    and "invocations (snd (event_generator rt (Inr flow) sid s b)) =
           invocations b @ [Run_stream \<lparr>document_uri = session_document_uri s, document_title = None,
                                        page_count = None\<rparr>]"
  using workflow_loop_records [OF assms, of rt sid]
  by (simp_all add: event_generator_def opening_records_def case_prod_beta)

lemma example_doc:
  "\<lparr>document_uri = session_document_uri session0, document_title = None, page_count = None\<rparr> = doc0"
  by (simp add: session0_def doc0_def)

lemma example_invoke:
  "invoke (document_workflow python0 services0) doc0 [] answering_bridge =
     ((example_events, None), [], answering_bridge\<lparr>engine := suspended0, invocations := [Run_stream doc0]\<rparr>)"
  by (simp add: invoke_def document_workflow_def answering_bridge_def bridge0_def example_run_stream
      example_events_def)

lemma example_consume:
  "snd (snd (snd (consume python0 ''s1'' example_events []
      (answering_bridge\<lparr>engine := suspended0, invocations := [Run_stream doc0]\<rparr>)))) =
     \<lparr>api = waiting_api, schedule = [[], [decision0]], engine = suspended0,
      invocations = [Run_stream doc0]\<rparr>"
  by (simp add: example_events_def answering_bridge_def bridge0_def clients_def submit_all_def
      waiting_api_def)

lemma example_final:
  "snd (event_generator python0 (Inr (document_workflow python0 services0)) ''s1'' session0 answering_bridge)
     = \<lparr>api = snd (submit_approval waiting_api decision0), schedule = [], engine = suspended0,
        invocations = [Run_stream doc0]\<rparr>"
proof -
  obtain out reqs returned b2 where
    c: "consume python0 ''s1'' example_events []
          (answering_bridge\<lparr>engine := suspended0, invocations := [Run_stream doc0]\<rparr>)
        = (out, reqs, returned, b2)"
    by (cases "consume python0 ''s1'' example_events []
          (answering_bridge\<lparr>engine := suspended0, invocations := [Run_stream doc0]\<rparr>)") auto
  have b2: "b2 = \<lparr>api = waiting_api, schedule = [[], [decision0]], engine = suspended0,
      invocations = [Run_stream doc0]\<rparr>"
    using example_consume c by simp
  have ret: "returned = False"
    using consume_returned [of python0 "''s1''" example_events "[]"
        "answering_bridge\<lparr>engine := suspended0, invocations := [Run_stream doc0]\<rparr>"] c
    by (simp add: example_events_def)
  have reqs: "reqs = [(''req-x'', request0)]"
    using consume_requests [of python0 "''s1''" example_events "[]"
        "answering_bridge\<lparr>engine := suspended0, invocations := [Run_stream doc0]\<rparr>"] c
    by (simp add: example_events_def)
  have fin: "(clients ^^ max_wait) (clients b2) =
      \<lparr>api = snd (submit_approval waiting_api decision0), schedule = [], engine = suspended0,
        invocations = [Run_stream doc0]\<rparr>"
    by (simp add: b2 clients_funpow max_wait_def clients_def submit_all_def)
  show ?thesis
    by (simp add: event_generator_def example_doc workflow_loop_once example_invoke c ret reqs fin)
qed

section \<open>Claim C1: a submitted answer and the polling loop\<close>

text \<open>
  C1 says that an answer delivered through the submit entry point reaches the buffer
  the wait loop polls, so that the loop exits, the engine is resumed with the answer
  and the stream ends with \<^verbatim>\<open>workflow_completed\<close>.  The code at the example run, with
  the one outstanding request answered during the first sleep: \<^verbatim>\<open>submit_approval\<close>
  accepts the answer and stores it under the session's key \<^verbatim>\<open>pending_responses\<close>, the
  generator polls its own local dict, the stream ends with the timeout error and
  without \<^verbatim>\<open>workflow_completed\<close>, and the workflow was started once and never resumed.
\<close>

theorem submitted_answer_is_never_polled:
  "fst (submit_approval waiting_api decision0)
     = Inr [(''status'', PyStr ''success''), (''message'', PyStr ''Approval granted''),
            (''approval_id'', PyStr ''uuid-x'')]
   \<and> map sse_event (fst (event_generator python0 (Inr (document_workflow python0 services0))
         ''s1'' session0 answering_bridge))
     = [''connected'', ''workflow_started'', ''progress'', ''progress'', ''progress'', ''progress'',
        ''approval_required'', ''waiting_for_approval'', ''error'']
   \<and> last (fst (event_generator python0 (Inr (document_workflow python0 services0))
         ''s1'' session0 answering_bridge))
     = Sse ''error'' [(''message'', PyStr ''Approval timeout - no response received'')]
   \<and> invocations (snd (event_generator python0 (Inr (document_workflow python0 services0))
         ''s1'' session0 answering_bridge))
     = [Run_stream doc0]
   \<and> map_option pending_responses
       (workflow_sessions (api (snd (event_generator python0 (Inr (document_workflow python0 services0))
          ''s1'' session0 answering_bridge))) ''s1'')
     = Some (Some [(''req-x'', \<lparr>resp_approval_id = ''uuid-x'', resp_approved = True, resp_comment = None\<rparr>)])"
proof -
  have run: "wf_run_stream (document_workflow python0 services0)
       \<lparr>document_uri = session_document_uri session0, document_title = None, page_count = None\<rparr>
       (engine answering_bridge) = ((example_events, None), suspended0)"
    by (simp add: example_doc document_workflow_def answering_bridge_def bridge0_def
        example_run_stream example_events_def)
  have recs: "fst (event_generator python0 (Inr (document_workflow python0 services0))
         ''s1'' session0 answering_bridge)
      = opening_records ''s1'' session0 @ concat (map (record_of python0 ''s1'') (until_output example_events))
        @ closing_records python0 example_events None"
    by (rule generator_records(1) [OF run])
  have names: "map sse_event (opening_records ''s1'' session0
        @ concat (map (record_of python0 ''s1'') (until_output example_events))
        @ closing_records python0 example_events None)
     = [''connected'', ''workflow_started'', ''progress'', ''progress'', ''progress'', ''progress'',
        ''approval_required'', ''waiting_for_approval'', ''error'']"
    by (simp add: opening_records_def example_events_def closing_records_def custom_event_def progress_def
        dict_get_def dict_get_default_def format_sse_def waiting_record_def timeout_record_def)
  have lst: "last (opening_records ''s1'' session0
        @ concat (map (record_of python0 ''s1'') (until_output example_events))
        @ closing_records python0 example_events None)
     = Sse ''error'' [(''message'', PyStr ''Approval timeout - no response received'')]"
    by (simp add: example_events_def closing_records_def format_sse_def timeout_record_def)
  have sub: "submit_approval waiting_api decision0 =
      (Inr [(''status'', PyStr ''success''), (''message'', PyStr ''Approval granted''),
            (''approval_id'', PyStr ''uuid-x'')],
       \<lparr>workflow_sessions =
          [''s1'' \<mapsto> session0\<lparr>pending_responses :=
             Some [(''req-x'', \<lparr>resp_approval_id = ''uuid-x'', resp_approved = True, resp_comment = None\<rparr>)]\<rparr>],
        pending_approvals = Map.empty\<rparr>)"
    by (simp add: submit_approval_def waiting_api_def decision0_def session0_def Let_def)
  show ?thesis
    using names lst unfolding recs [symmetric]
    by (simp add: example_final sub)
qed

section \<open>Claim C3: the timeout\<close>

text \<open>No call of \<^verbatim>\<open>submit_approval\<close> still to come names the request id.\<close>

definition unanswered :: "string \<Rightarrow> ApprovalDecision list list \<Rightarrow> bool" where
  "unanswered rid sched = list_all (list_all (\<lambda>d. request_id d \<noteq> rid)) sched"

lemma submit_other:
  "request_id d \<noteq> rid \<Longrightarrow> pending_approvals (snd (submit_approval g d)) rid = pending_approvals g rid"
  by (simp add: submit_approval_def Let_def split: option.splits)

lemma submit_all_other:
  "list_all (\<lambda>d. request_id d \<noteq> rid) ds \<Longrightarrow>
   pending_approvals (submit_all g ds) rid = pending_approvals g rid"
  unfolding submit_all_def by (induction ds arbitrary: g) (simp_all add: submit_other)

lemma clients_other:
  assumes "unanswered rid (schedule b)"
  shows "pending_approvals (api (clients b)) rid = pending_approvals (api b) rid"
    and "unanswered rid (schedule (clients b))"
  using assms by (cases "schedule b"; simp add: clients_def unanswered_def submit_all_other)+

lemma clients_funpow_other:
  "unanswered rid (schedule b) \<Longrightarrow>
   pending_approvals (api ((clients ^^ n) b)) rid = pending_approvals (api b) rid"
proof (induction n arbitrary: b)
  case 0
  show ?case by simp
next
  case (Suc n)
  have "(clients ^^ Suc n) b = (clients ^^ n) (clients b)" by (simp add: funpow_swap1)
  with Suc.IH [of "clients b"] clients_other [OF Suc.prems] show ?case by simp
qed

lemma consume_keeps:
  assumes "unanswered rid (schedule b)" and "pending_approvals (api b) rid \<noteq> None"
  shows "pending_approvals (api (snd (snd (snd (consume rt sid evs reqs b))))) rid \<noteq> None
       \<and> unanswered rid (schedule (snd (snd (snd (consume rt sid evs reqs b)))))"
  using assms
proof (induction rt sid evs reqs b rule: consume.induct)
  case (1 rt sid reqs b)
  then show ?case by simp
next
  case (2 rt sid data evs reqs b)
  then show ?case by (simp add: clients_other)
next
  case (3 rt sid rid' req evs reqs b)
  let ?b2 = "(clients b)\<lparr>api := (api (clients b))\<lparr>pending_approvals :=
                   (pending_approvals (api (clients b)))
                     (rid' \<mapsto> \<lparr>info_session_id = sid, approval_data = approval_fields rid' req\<rparr>)\<rparr>\<rparr>"
  have "unanswered rid (schedule ?b2)" "pending_approvals (api ?b2) rid \<noteq> None"
    using 3(2,3) by (simp_all add: clients_other)
  with 3(1) [OF refl refl] show ?case by (simp add: Let_def case_prod_beta)
next
  case (4 rt sid event_data evs reqs b)
  then show ?case by (simp add: clients_other case_prod_beta)
next
  case (5 rt sid executor_id evs reqs b)
  then show ?case by (simp add: clients_other case_prod_beta)
qed

lemma consume_registers:
  assumes "unanswered rid (schedule b)" and "RequestInfoEvent rid r \<in> set evs"
    and "\<not> list_ex is_output evs"
  shows "pending_approvals (api (snd (snd (snd (consume rt sid evs reqs b))))) rid \<noteq> None"
  using assms
proof (induction rt sid evs reqs b rule: consume.induct)
  case (1 rt sid reqs b)
  then show ?case by simp
next
  case (2 rt sid data evs reqs b)
  then show ?case by simp
next
  case (3 rt sid rid' req evs reqs b)
  let ?b2 = "(clients b)\<lparr>api := (api (clients b))\<lparr>pending_approvals :=
                   (pending_approvals (api (clients b)))
                     (rid' \<mapsto> \<lparr>info_session_id = sid, approval_data = approval_fields rid' req\<rparr>)\<rparr>\<rparr>"
  have u: "unanswered rid (schedule ?b2)" using 3(2) by (simp add: clients_other)
  show ?case
  proof (cases "rid' = rid")
    case True
    then have "pending_approvals (api ?b2) rid \<noteq> None" by simp
    with u consume_keeps [of rid ?b2 rt sid evs "reqs @ [(rid', req)]"]
    show ?thesis by (simp add: Let_def case_prod_beta)
  next
    case False
    with 3(3) have "RequestInfoEvent rid r \<in> set evs" by simp
    with 3(1) [OF refl refl u] 3(4) show ?thesis by (simp add: Let_def case_prod_beta)
  qed
next
  case (4 rt sid event_data evs reqs b)
  then show ?case by (simp add: clients_other case_prod_beta)
next
  case (5 rt sid executor_id evs reqs b)
  then show ?case by (simp add: clients_other case_prod_beta)
qed

lemma consume_unanswered:
  "unanswered rid (schedule b) \<Longrightarrow>
   unanswered rid (schedule (snd (snd (snd (consume rt sid evs reqs b)))))"
  by (induction rt sid evs reqs b rule: consume.induct)
    (simp_all add: clients_other Let_def case_prod_beta)

lemma request_of_member:
  "RequestInfoEvent rid r \<in> set evs \<Longrightarrow> concat (map request_of evs) \<noteq> []"
  by (induction evs) auto

lemma generator_final:
  assumes "wf_run_stream flow
             \<lparr>document_uri = session_document_uri s, document_title = None, page_count = None\<rparr>
             (engine b) = ((evs, None), w)"
    and "\<not> list_ex is_output evs" and "concat (map request_of evs) \<noteq> []"
  shows "snd (event_generator rt (Inr flow) sid s b) =
     (clients ^^ max_wait) (clients (snd (snd (snd (consume rt sid evs []
        (b\<lparr>engine := w,
           invocations := invocations b @
             [Run_stream \<lparr>document_uri = session_document_uri s, document_title = None,
                          page_count = None\<rparr>]\<rparr>))))))"
proof -
  let ?doc = "\<lparr>document_uri = session_document_uri s, document_title = None, page_count = None\<rparr>"
  let ?b1 = "b\<lparr>engine := w, invocations := invocations b @ [Run_stream ?doc]\<rparr>"
  have inv: "invoke flow ?doc [] b = ((evs, None), [], ?b1)"
    using assms(1) by (simp add: invoke_def)
  obtain out reqs returned b2 where c: "consume rt sid evs [] ?b1 = (out, reqs, returned, b2)"
    by (cases "consume rt sid evs [] ?b1") auto
  have reqs: "reqs = concat (map request_of evs)"
    using consume_requests [of rt sid evs "[]" ?b1] c assms(2) by (simp add: until_output_id)
  have ret: "returned = False"
    using consume_returned [of rt sid evs "[]" ?b1] c assms(2) by simp
  show ?thesis
    using assms(3) by (simp add: event_generator_def workflow_loop_once inv c reqs ret)
qed

lemma clients_engine:
  "engine (clients b) = engine b" "engine ((clients ^^ n) b) = engine b"
  by (simp_all add: clients_funpow clients_def split: list.splits)

text \<open>
  C3, amended.  If a session reaches the waiting state (its stream ends normally,
  without an output event, with a request \<open>rid\<close> outstanding) and that request receives
  no answer, then the stream's last record is the timeout error, the workflow was
  started once and is not resumed, its run state is the one the first pass left, and
  \<open>rid\<close> is still in \<^verbatim>\<open>pending_approvals\<close>: the timeout path removes nothing from the
  correlation store.
\<close>

theorem timeout_closes_without_resuming:
  assumes "wf_run_stream flow
             \<lparr>document_uri = session_document_uri s, document_title = None, page_count = None\<rparr>
             (engine b) = ((evs, None), w)"
    and "\<not> list_ex is_output evs"
    and "RequestInfoEvent rid r \<in> set evs"
    and "unanswered rid (schedule b)"
  shows "last (fst (event_generator rt (Inr flow) sid s b)) = timeout_record
       \<and> invocations (snd (event_generator rt (Inr flow) sid s b)) =
           invocations b @ [Run_stream \<lparr>document_uri = session_document_uri s,
                                        document_title = None, page_count = None\<rparr>]
       \<and> engine (snd (event_generator rt (Inr flow) sid s b)) = w
       \<and> pending_approvals (api (snd (event_generator rt (Inr flow) sid s b))) rid \<noteq> None"
proof -
  let ?doc = "\<lparr>document_uri = session_document_uri s, document_title = None, page_count = None\<rparr>"
  let ?b1 = "b\<lparr>engine := w, invocations := invocations b @ [Run_stream ?doc]\<rparr>"
  let ?b2 = "snd (snd (snd (consume rt sid evs [] ?b1)))"
  have reqs: "concat (map request_of evs) \<noteq> []"
    using assms(3) by (rule request_of_member)
  have "fst (event_generator rt (Inr flow) sid s b) =
          opening_records sid s @ concat (map (record_of rt sid) (until_output evs))
          @ closing_records rt evs None"
    by (rule generator_records(1) [OF assms(1)])
  then have last: "last (fst (event_generator rt (Inr flow) sid s b)) = timeout_record"
    using assms(2) reqs by (simp add: closing_records_def)
  have fin: "snd (event_generator rt (Inr flow) sid s b) = (clients ^^ max_wait) (clients ?b2)"
    by (rule generator_final [OF assms(1,2) reqs])
  have u1: "unanswered rid (schedule ?b1)" using assms(4) by simp
  have held: "pending_approvals (api ?b2) rid \<noteq> None"
    by (rule consume_registers [OF u1 assms(3,2)])
  have u2: "unanswered rid (schedule ?b2)"
    by (rule consume_unanswered [OF u1])
  have store: "pending_approvals (api ((clients ^^ max_wait) (clients ?b2))) rid \<noteq> None"
    using held clients_other [OF u2] clients_funpow_other [of rid "clients ?b2" max_wait]
    by simp
  have eng: "engine ((clients ^^ max_wait) (clients ?b2)) = w"
    using consume_engine [of rt sid evs "[]" ?b1] by (simp add: clients_engine)
  show ?thesis
    using last generator_records(2) [OF assms(1), of rt sid] store eng by (simp add: fin)
qed

lemma example_run:
  "engine b = engine0 \<Longrightarrow>
   wf_run_stream (document_workflow python0 services0)
       \<lparr>document_uri = session_document_uri session0, document_title = None, page_count = None\<rparr>
       (engine b) = ((example_events, None), suspended0)"
  by (simp add: example_doc document_workflow_def example_run_stream example_events_def)

lemma example_unanswered_final:
  "snd (event_generator python0 (Inr (document_workflow python0 services0)) ''s1'' session0 bridge0)
     = \<lparr>api = waiting_api, schedule = [], engine = suspended0,
        invocations = [Run_stream doc0]\<rparr>"
proof -
  have run: "wf_run_stream (document_workflow python0 services0)
       \<lparr>document_uri = session_document_uri session0, document_title = None, page_count = None\<rparr>
       (engine bridge0) = ((example_events, None), suspended0)"
    by (rule example_run) (simp add: bridge0_def)
  have c: "snd (snd (snd (consume python0 ''s1'' example_events []
      (bridge0\<lparr>engine := suspended0, invocations := invocations bridge0 @ [Run_stream doc0]\<rparr>)))) =
     \<lparr>api = waiting_api, schedule = [], engine = suspended0, invocations = [Run_stream doc0]\<rparr>"
    by (simp add: example_events_def bridge0_def clients_def waiting_api_def)
  have "snd (event_generator python0 (Inr (document_workflow python0 services0)) ''s1'' session0 bridge0)
      = (clients ^^ max_wait) (clients (snd (snd (snd (consume python0 ''s1'' example_events []
        (bridge0\<lparr>engine := suspended0,
           invocations := invocations bridge0 @
             [Run_stream \<lparr>document_uri = session_document_uri session0, document_title = None,
                          page_count = None\<rparr>]\<rparr>))))))"
    by (rule generator_final [OF run]) (simp_all add: example_events_def)
  then show ?thesis
    by (simp add: example_doc c clients_funpow clients_def)
qed

text \<open>
  C3 as stated fails at the example run with no answer submitted: after the timeout
  error the request id is still in \<^verbatim>\<open>pending_approvals\<close>, and its approval id still in
  \<^verbatim>\<open>APPROVAL_CONTEXT\<close>.
\<close>

theorem request_outlives_timeout_counterexample:
  \<open>last (fst (event_generator python0 (Inr (document_workflow python0 services0)) ''s1'' session0 bridge0))
     = Sse ''error'' [(''message'', PyStr ''Approval timeout - no response received'')]
   \<and> pending_approvals
       (api (snd (event_generator python0 (Inr (document_workflow python0 services0)) ''s1'' session0 bridge0)))
       ''req-x''
     = Some \<lparr>info_session_id = ''s1'', approval_data = approval_fields ''req-x'' request0\<rparr>
   \<and> APPROVAL_CONTEXT
       (engine (snd (event_generator python0 (Inr (document_workflow python0 services0)) ''s1'' session0 bridge0)))
       ''uuid-x''
     = Some [(''payload'', PyStr ''{"compliant": true}''),
             (''source_uri'', PyStr ''n/a''), (''preview'', PyStr ''No preview'')]\<close>
proof -
  have run: "wf_run_stream (document_workflow python0 services0)
       \<lparr>document_uri = session_document_uri session0, document_title = None, page_count = None\<rparr>
       (engine bridge0) = ((example_events, None), suspended0)"
    by (rule example_run) (simp add: bridge0_def)
  have "last (opening_records ''s1'' session0
        @ concat (map (record_of python0 ''s1'') (until_output example_events))
        @ closing_records python0 example_events None)
     = Sse ''error'' [(''message'', PyStr ''Approval timeout - no response received'')]"
    by (simp add: example_events_def closing_records_def format_sse_def timeout_record_def)
  then show ?thesis
    unfolding generator_records(1) [OF run, symmetric]
    by (simp add: example_unanswered_final waiting_api_def suspended0_def)
qed

text \<open>A bridge whose only client answers a request id that does not exist.\<close>

definition stray_bridge :: "engine_state bridge" where
  "stray_bridge =
     bridge0\<lparr>schedule :=
       [[\<lparr>request_id = ''req-y'', approval_id = ''uuid-x'', approved = True, comment = None\<rparr>]]\<rparr>"

text \<open>C3, amended, at the example run with the stray answer.\<close>

theorem timeout_witness:
  "\<not> list_ex is_output example_events
   \<and> RequestInfoEvent ''req-x'' request0 \<in> set example_events
   \<and> unanswered ''req-x'' (schedule stray_bridge)
   \<and> last (fst (event_generator python0 (Inr (document_workflow python0 services0)) ''s1'' session0
        stray_bridge))
       = Sse ''error'' [(''message'', PyStr ''Approval timeout - no response received'')]
   \<and> invocations (snd (event_generator python0 (Inr (document_workflow python0 services0)) ''s1'' session0
        stray_bridge))
       = [Run_stream doc0]
   \<and> engine (snd (event_generator python0 (Inr (document_workflow python0 services0)) ''s1'' session0
        stray_bridge))
       = suspended0
   \<and> pending_approvals (api (snd (event_generator python0 (Inr (document_workflow python0 services0))
        ''s1'' session0 stray_bridge))) ''req-x'' \<noteq> None"
proof -
  have run: "wf_run_stream (document_workflow python0 services0)
       \<lparr>document_uri = session_document_uri session0, document_title = None, page_count = None\<rparr>
       (engine stray_bridge) = ((example_events, None), suspended0)"
    by (rule example_run) (simp add: stray_bridge_def bridge0_def)
  have h2: "\<not> list_ex is_output example_events" by (simp add: example_events_def)
  have h3: "RequestInfoEvent ''req-x'' request0 \<in> set example_events" by (simp add: example_events_def)
  have h4: "unanswered ''req-x'' (schedule stray_bridge)"
    by (simp add: unanswered_def stray_bridge_def)
  show ?thesis
    using h2 h3 h4 timeout_closes_without_resuming [OF run h2 h3 h4, of python0 "''s1''"]
    by (simp add: timeout_record_def format_sse_def example_doc stray_bridge_def bridge0_def)
qed

section \<open>Claim C8: one terminal record\<close>

lemma custom_event_not_terminal: "filter terminal (custom_event event_data) = []"
  by (cases event_data) (simp_all add: custom_event_def terminal_def format_sse_def)

lemma record_of_terminal:
  "filter terminal (record_of rt sid e) = (if is_output e then record_of rt sid e else [])"
  by (cases e) (simp_all add: custom_event_not_terminal terminal_def format_sse_def)

lemma stream_terminal_records:
  "length (filter terminal (concat (map (record_of rt sid) (until_output evs))))
     = (if list_ex is_output evs then 1 else 0)"
proof (induction evs)
  case Nil
  show ?case by simp
next
  case (Cons e evs)
  show ?case
  proof (cases "is_output e")
    case True
    then show ?thesis by (cases e) (simp_all add: terminal_def format_sse_def)
  next
    case False
    with Cons show ?thesis by (simp add: record_of_terminal)
  qed
qed

text \<open>
  The terminal records of the generator over any workflow object, by the way the
  stream of its first pass ends.
\<close>

lemma terminal_records_count:
  assumes "wf_run_stream flow
             \<lparr>document_uri = session_document_uri s, document_title = None, page_count = None\<rparr>
             (engine b) = ((evs, err), w)"
  shows "length (filter terminal (fst (event_generator rt (Inr flow) sid s b))) =
           (if \<not> list_ex is_output evs \<and> err = None \<and> concat (map request_of evs) = []
            then 0 else 1)"
proof -
  have o: "filter terminal (opening_records sid s) = []"
    by (simp add: opening_records_def terminal_def format_sse_def)
  have c: "length (filter terminal (closing_records rt evs err)) =
      (if list_ex is_output evs then 0
       else if err = None \<and> concat (map request_of evs) = [] then 0 else 1)"
    by (simp add: closing_records_def terminal_def format_sse_def error_record_def
        waiting_record_def timeout_record_def split: option.splits)
  show ?thesis
    unfolding generator_records(1) [OF assms]
    using stream_terminal_records [of rt sid evs] c by (simp add: o)
qed

text \<open>
  The first pass of the graph that \<^verbatim>\<open>workflow_small\<close> builds never drains: it ends with
  the exception of a step (an agent call or \<^verbatim>\<open>prepare_request\<close>), or with the request
  for approval outstanding, and it yields no output.
\<close>

lemma first_pass_never_drains:
  assumes "run_stream rt sv workflow_small doc st = ((evs, err), st')"
  shows "\<not> list_ex is_output evs \<and> (err \<noteq> None \<or> concat (map request_of evs) \<noteq> [])"
proof (cases "run_extractor_20_agent sv (prompt_text rt doc)")
  case (Inl e)
  with assms show ?thesis
    by (auto simp: run_stream_def successors_workflow_small workflow_small_fields
        supersteps_unfold execute_def build_prompt_def extractor_node_def)
next
  case extracted: (Inr e)
  show ?thesis
  proof (cases "run_compliance_20_agent sv e")
    case (Inl e')
    with assms extracted show ?thesis
      by (auto simp: run_stream_def successors_workflow_small workflow_small_fields
          supersteps_unfold execute_def build_prompt_def extractor_node_def extractor_result_def
          compliance_node_def progress_def)
  next
    case judged: (Inr c)
    show ?thesis
    proof (cases "uri_and_preview rt c")
      case (Inl e')
      with assms extracted judged show ?thesis
        by (auto simp: run_stream_def successors_workflow_small workflow_small_fields
            supersteps_unfold execute_def build_prompt_def extractor_node_def extractor_result_def
            compliance_node_def compliance_result_def prepare_request_def progress_def)
    next
      case (Inr r)
      obtain uri preview where "r = (uri, preview)" by (cases r)
      with Inr have "uri_and_preview rt c = Inr (uri, preview)" by simp
      from first_pass [OF extracted judged this, of st] assms show ?thesis
        by (auto simp: progress_def)
    qed
  qed
qed

text \<open>
  C8.  For every session of the bridge and every way its run ends, whatever the
  runtime, the agents and the clients do, the event stream holds exactly one terminal
  record (\<^verbatim>\<open>workflow_completed\<close> or \<^verbatim>\<open>error\<close>): when building the workflow raises,
  and when the workflow that \<^verbatim>\<open>workflow_small\<close> builds is run.  The stream of that
  workflow never drains with no output and no request, so the \<^verbatim>\<open>break\<close> that yields no
  record is not taken.
\<close>

theorem exactly_one_terminal_record:
  "length (filter terminal (fst (event_generator rt (Inl e) sid s b))) = 1
   \<and> length (filter terminal (fst (event_generator rt (Inr (document_workflow rt sv)) sid s b))) = 1"
proof -
  have build: "length (filter terminal (fst (event_generator rt (Inl e) sid s b))) = 1"
    by (simp add: event_generator_def terminal_def format_sse_def error_record_def)
  obtain evs err w where
    run: "wf_run_stream (document_workflow rt sv)
            \<lparr>document_uri = session_document_uri s, document_title = None, page_count = None\<rparr>
            (engine b) = ((evs, err), w)"
    by (metis surj_pair)
  then have "run_stream rt sv workflow_small
            \<lparr>document_uri = session_document_uri s, document_title = None, page_count = None\<rparr>
            (engine b) = ((evs, err), w)"
    by (simp add: document_workflow_def)
  then have "\<not> list_ex is_output evs \<and> (err \<noteq> None \<or> concat (map request_of evs) \<noteq> [])"
    by (rule first_pass_never_drains)
  with terminal_records_count [OF run, of rt sid]
  have "length (filter terminal (fst (event_generator rt (Inr (document_workflow rt sv)) sid s b))) = 1"
    by auto
  with build show ?thesis by simp
qed

text \<open>
  C8 at the example session, and at a session whose workflow cannot be built.
\<close>

theorem exactly_one_terminal_record_witness:
  "length (filter terminal
      (fst (event_generator python0 (Inr (document_workflow python0 services0)) ''s1'' session0 bridge0))) = 1
   \<and> fst (event_generator python0 (Inl (Raised ''disk full'')) ''s1'' session0 bridge0)
       = [Sse ''connected'' [(''session_id'', PyStr ''s1'')],
          Sse ''error'' [(''message'', PyStr ''disk full'')]]"
  using exactly_one_terminal_record [of python0 "Raised ''disk full''" "''s1''" session0 bridge0 services0]
  by (simp add: event_generator_def format_sse_def error_record_def python0_def)

section \<open>Claim C2: the compliant branch\<close>

text \<open>The records of a stream before the record \<^verbatim>\<open>waiting_for_approval\<close>.\<close>

definition before_waiting :: "sse list \<Rightarrow> sse list" where
  "before_waiting out = takeWhile (\<lambda>r. sse_event r \<noteq> ''waiting_for_approval'') out"

lemma example_before_waiting:
  "before_waiting (fst (event_generator python0 (Inr (document_workflow python0 services0))
         ''s1'' session0 bridge0))
     = [Sse ''connected'' [(''session_id'', PyStr ''s1'')],
        Sse ''workflow_started'' [(''session_id'', PyStr ''s1''), (''document_uri'', PyStr ''doc-1'')],
        Sse ''progress'' [(''phase'', PyStr ''extraction''), (''status'', PyStr ''running'')],
        Sse ''progress'' [(''phase'', PyStr ''extraction''), (''status'', PyStr ''completed'')],
        Sse ''progress'' [(''phase'', PyStr ''compliance''), (''status'', PyStr ''running'')],
        Sse ''progress'' [(''phase'', PyStr ''compliance''), (''status'', PyStr ''completed'')],
        Sse ''approval_required'' (approval_fields ''req-x'' request0)]"
proof -
  have run: "wf_run_stream (document_workflow python0 services0)
       \<lparr>document_uri = session_document_uri session0, document_title = None, page_count = None\<rparr>
       (engine bridge0) = ((example_events, None), suspended0)"
    by (rule example_run) (simp add: bridge0_def)
  show ?thesis
    unfolding generator_records(1) [OF run]
    by (simp add: before_waiting_def opening_records_def example_events_def closing_records_def
        custom_event_def progress_def dict_get_def dict_get_default_def format_sse_def
        waiting_record_def timeout_record_def session0_def)
qed

text \<open>
  C2 as stated fails at the example run, whose compliance agent returns a compliant
  result: the stream emits \<^verbatim>\<open>approval_required\<close>, and what it emits before it waits
  for the answer holds no \<^verbatim>\<open>workflow_completed\<close>.
\<close>

theorem compliant_run_asks_for_approval_counterexample:
  \<open>run_compliance_20_agent services0 ''Form 1040, tax year 2023'' = Inr ''{"compliant": true}''
   \<and> Sse ''approval_required'' (approval_fields ''req-x'' request0)
       \<in> set (before_waiting (fst (event_generator python0 (Inr (document_workflow python0 services0))
               ''s1'' session0 bridge0)))
   \<and> ''workflow_completed''
       \<notin> set (map sse_event
             (before_waiting (fst (event_generator python0 (Inr (document_workflow python0 services0))
               ''s1'' session0 bridge0))))\<close>
  unfolding example_before_waiting by (simp add: services0_def)

text \<open>
  C2, amended.  For every run of the document workflow in which the two agents return
  and \<^verbatim>\<open>prepare_request\<close> does not raise, whatever the compliance result and whatever
  the clients submit, the stream emits \<^verbatim>\<open>progress(extraction, completed)\<close>,
  \<^verbatim>\<open>progress(compliance, completed)\<close> and the \<^verbatim>\<open>approval_required\<close> record of the
  request, then \<^verbatim>\<open>waiting_for_approval\<close>, and no \<^verbatim>\<open>workflow_completed\<close> before that:
  the graph has no branch that skips the approval step.  What follows the wait is not
  part of the statement.
\<close>

theorem approval_is_never_skipped:
  assumes "run_extractor_20_agent sv
             (prompt_text rt \<lparr>document_uri = session_document_uri s, document_title = None,
                               page_count = None\<rparr>) = Inr e"
    and "run_compliance_20_agent sv e = Inr c"
    and "uri_and_preview rt c = Inr (uri, preview)"
  shows "format_sse ''progress'' [(''phase'', PyStr ''extraction''), (''status'', PyStr ''completed'')]
           \<in> set (before_waiting (fst (event_generator rt (Inr (document_workflow rt sv)) sid s b)))
       \<and> format_sse ''progress'' [(''phase'', PyStr ''compliance''), (''status'', PyStr ''completed'')]
           \<in> set (before_waiting (fst (event_generator rt (Inr (document_workflow rt sv)) sid s b)))
       \<and> format_sse ''approval_required''
             (approval_fields (new_request_id sv (requests_made (engine b)))
                \<lparr>req_approval_id = uuid4 sv (uuids_used (engine b)),
                 req_title = ''Manual approval required'',
                 req_message = ''Please review the extracted result.'',
                 req_source_uri = uri, req_preview = preview\<rparr>)
           \<in> set (before_waiting (fst (event_generator rt (Inr (document_workflow rt sv)) sid s b)))
       \<and> ''workflow_completed''
           \<notin> set (map sse_event
                 (before_waiting (fst (event_generator rt (Inr (document_workflow rt sv)) sid s b))))
       \<and> ''waiting_for_approval''
           \<in> set (map sse_event (fst (event_generator rt (Inr (document_workflow rt sv)) sid s b)))"
proof -
  let ?doc = "\<lparr>document_uri = session_document_uri s, document_title = None, page_count = None\<rparr>"
  note run = first_pass [OF assms, of "engine b"]
  obtain evs w where
    r: "wf_run_stream (document_workflow rt sv) ?doc (engine b) = ((evs, None), w)"
    and evs: "evs =
       [ExecutorCompletedEvent ''doc_prompt'',
        WorkflowEvent (PyDict (progress ''extraction'' ''running'')),
        ExecutorCompletedEvent ''extractor_node'',
        WorkflowEvent (PyDict (progress ''extraction'' ''completed'')),
        ExecutorCompletedEvent ''extractor_result_node'',
        WorkflowEvent (PyDict (progress ''compliance'' ''running'')),
        ExecutorCompletedEvent ''compliance_node'',
        WorkflowEvent (PyDict (progress ''compliance'' ''completed'')),
        ExecutorCompletedEvent ''compliance_result_node'',
        ExecutorCompletedEvent ''hitl_coordinator'',
        RequestInfoEvent (new_request_id sv (requests_made (engine b)))
          \<lparr>req_approval_id = uuid4 sv (uuids_used (engine b)),
           req_title = ''Manual approval required'',
           req_message = ''Please review the extracted result.'',
           req_source_uri = uri, req_preview = preview\<rparr>,
        ExecutorCompletedEvent ''human_review_exec'']"
    using run by (simp add: document_workflow_def)
  show ?thesis
    unfolding generator_records(1) [OF r]
    by (simp add: evs before_waiting_def opening_records_def closing_records_def custom_event_def
        progress_def dict_get_def dict_get_default_def format_sse_def waiting_record_def
        timeout_record_def)
qed

text \<open>C2, amended, at the example run.\<close>

theorem approval_is_never_skipped_witness:
  \<open>run_extractor_20_agent services0 (prompt_text python0 doc0) = Inr ''Form 1040, tax year 2023''
   \<and> run_compliance_20_agent services0 ''Form 1040, tax year 2023'' = Inr ''{"compliant": true}''
   \<and> uri_and_preview python0 ''{"compliant": true}'' = Inr (PyStr ''n/a'', PyStr ''No preview'')
   \<and> Sse ''progress'' [(''phase'', PyStr ''extraction''), (''status'', PyStr ''completed'')]
         \<in> set (before_waiting
               (fst (event_generator python0 (Inr (document_workflow python0 services0)) ''s1'' session0
                  answering_bridge)))
   \<and> Sse ''progress'' [(''phase'', PyStr ''compliance''), (''status'', PyStr ''completed'')]
         \<in> set (before_waiting
               (fst (event_generator python0 (Inr (document_workflow python0 services0)) ''s1'' session0
                  answering_bridge)))
   \<and> Sse ''approval_required'' (approval_fields ''req-x'' request0)
         \<in> set (before_waiting
               (fst (event_generator python0 (Inr (document_workflow python0 services0)) ''s1'' session0
                  answering_bridge)))
   \<and> ''workflow_completed''
         \<notin> set (map sse_event (before_waiting
               (fst (event_generator python0 (Inr (document_workflow python0 services0)) ''s1'' session0
                  answering_bridge))))\<close>
proof -
  have a: "run_extractor_20_agent services0
             (prompt_text python0 \<lparr>document_uri = session_document_uri session0, document_title = None,
                               page_count = None\<rparr>) = Inr ''Form 1040, tax year 2023''"
    by (simp add: services0_def)
  have a': "run_extractor_20_agent services0 (prompt_text python0 doc0) = Inr ''Form 1040, tax year 2023''"
    by (simp add: services0_def)
  have b: \<open>run_compliance_20_agent services0 ''Form 1040, tax year 2023'' = Inr ''{"compliant": true}''\<close>
    by (simp add: services0_def)
  show ?thesis
    using a' b example_uri_and_preview
      approval_is_never_skipped [OF a b example_uri_and_preview, of "''s1''" answering_bridge]
    by (simp add: format_sse_def answering_bridge_def bridge0_def engine0_def services0_def request0_def)
qed

end
